theory Spec2Isabelle
  imports Complex_Main
begin

section \<open>Shared types (types.ts, constants.ts)\<close>

text \<open>
  JavaScript numbers are modelled as mathematical reals, with one exception: the three
  operations of each coordinate of \<open>Vector3.lerp\<close>, and the product
  \<open>delta * lerpFactor\<close> handed to it, are rounded to IEEE binary64 as the
  interpreter rounds them. NaN, the infinities and overflow are outside the model.
  Everything else follows the TypeScript sources function by function.
\<close>

datatype AppMode = TREE | SCATTER | FOCUS

datatype OrnamentType = GEM | PEARL | PHOTO

datatype Gesture = NONE | OPEN_PALM | CLOSED_FIST | PINCH

record GestureState =
  isHandDetected :: bool
  gesture :: Gesture
  handRotation :: real

definition TREE_HEIGHT :: real where
  "TREE_HEIGHT = 15"

definition TREE_RADIUS_BASE :: real where
  "TREE_RADIUS_BASE = 13 / 2"

definition ORNAMENT_COUNT :: nat where
  "ORNAMENT_COUNT = 350"

definition GOLD_PURE :: string where
  "GOLD_PURE = ''#FFD700''"

definition GOLD_CHAMPAGNE :: string where
  "GOLD_CHAMPAGNE = ''#F7E7CE''"

definition MATTE_BLACK :: string where
  "MATTE_BLACK = ''#1A1A1A''"

definition RICH_RED :: string where
  "RICH_RED = ''#C70039''"

definition DEEP_GREEN :: string where
  "DEEP_GREEN = ''#003300''"

section \<open>Gesture classifier (gestureService.ts)\<close>

text \<open>
  A landmark is an object with numeric fields x, y and z. The argument of
  \<open>classifyGesture\<close> is typed \<open>any[]\<close>: \<open>None\<close> stands for a null or undefined
  argument, \<open>Some hs\<close> for an array with one landmark array per detected hand.
  Reading an array out of range gives \<open>undefined\<close> (here \<open>None\<close>), and reading
  a field of \<open>undefined\<close> throws a TypeError.
\<close>

record Landmark =
  lm_x :: real
  lm_y :: real
  lm_z :: real

datatype js_error = TypeError

record GestureResult =
  res_gesture :: Gesture
  res_rotation :: real

definition js_nth :: "'a list \<Rightarrow> nat \<Rightarrow> 'a option" where
  "js_nth xs i = (if i < length xs then Some (xs ! i) else None)"

text \<open>The local helper \<open>dist\<close> of \<open>classifyGesture\<close>, on defined arguments
  (renamed: \<open>dist\<close> is the metric of the HOL library).\<close>

definition dist_lm :: "Landmark \<Rightarrow> Landmark \<Rightarrow> real" where
  "dist_lm p1 p2 =
     sqrt ((lm_x p1 - lm_x p2)\<^sup>2 + (lm_y p1 - lm_y p2)\<^sup>2 + (lm_z p1 - lm_z p2)\<^sup>2)"

text \<open>\<open>dist\<close> as called on array reads: a field access on \<open>undefined\<close> throws.\<close>

definition dist_u :: "Landmark option \<Rightarrow> Landmark option \<Rightarrow> js_error + real" where
  "dist_u p1 p2 =
     (case p1 of None \<Rightarrow> Inl TypeError
      | Some a \<Rightarrow> (case p2 of None \<Rightarrow> Inl TypeError | Some b \<Rightarrow> Inr (dist_lm a b)))"

definition calculateHandRotation :: "Landmark list list option \<Rightarrow> js_error + real" where
  "calculateHandRotation landmarks =
     (case landmarks of
        None \<Rightarrow> Inr 0
      | Some [] \<Rightarrow> Inr 0
      | Some (lm # _) \<Rightarrow>
          (case js_nth lm 17 of
             None \<Rightarrow> Inl TypeError
           | Some p1 \<Rightarrow>
               (case js_nth lm 2 of
                  None \<Rightarrow> Inl TypeError
                | Some p2 \<Rightarrow> Inr (max (- 1) (min 1 ((lm_y p1 - lm_y p2) * 5))))))"

text \<open>
  The loop \<open>for (let i = 0; i < 4; i++)\<close> over the parallel arrays \<open>tips\<close> and
  \<open>mcps\<close>, with the running \<open>foldedCount\<close>.
\<close>

fun countFolded ::
  "Landmark option \<Rightarrow> (Landmark option \<times> Landmark option) list \<Rightarrow> nat \<Rightarrow> js_error + nat"
where
  "countFolded wrist [] foldedCount = Inr foldedCount"
| "countFolded wrist ((tip, mcp) # rest) foldedCount =
     (case dist_u tip wrist of
        Inl e \<Rightarrow> Inl e
      | Inr a \<Rightarrow>
          (case dist_u mcp wrist of
             Inl e \<Rightarrow> Inl e
           | Inr b \<Rightarrow> countFolded wrist rest (if a < b then foldedCount + 1 else foldedCount)))"

definition classifyGesture :: "Landmark list list option \<Rightarrow> js_error + GestureResult" where
  "classifyGesture landmarks =
     (case calculateHandRotation landmarks of
        Inl e \<Rightarrow> Inl e
      | Inr rotation \<Rightarrow>
          (case landmarks of
             None \<Rightarrow> Inr \<lparr>res_gesture = NONE, res_rotation = 0\<rparr>
           | Some [] \<Rightarrow> Inr \<lparr>res_gesture = NONE, res_rotation = 0\<rparr>
           | Some (lm # _) \<Rightarrow>
               (case dist_u (js_nth lm 4) (js_nth lm 8) of
                  Inl e \<Rightarrow> Inl e
                | Inr pinchDistance \<Rightarrow>
                    if pinchDistance < 5 / 100
                    then Inr \<lparr>res_gesture = PINCH, res_rotation = rotation\<rparr>
                    else
                      (case countFolded (js_nth lm 0)
                              [(js_nth lm 8, js_nth lm 5), (js_nth lm 12, js_nth lm 9),
                               (js_nth lm 16, js_nth lm 13), (js_nth lm 20, js_nth lm 17)] 0 of
                         Inl e \<Rightarrow> Inl e
                       | Inr foldedCount \<Rightarrow>
                           if foldedCount \<ge> 3
                           then Inr \<lparr>res_gesture = CLOSED_FIST, res_rotation = rotation\<rparr>
                           else Inr \<lparr>res_gesture = OPEN_PALM, res_rotation = rotation\<rparr>))))"

section \<open>Mode state machine (App.tsx)\<close>

text \<open>
  The component state that \<open>handleGestureResult\<close> reads and writes:
  \<open>gestureState\<close> and \<open>appMode\<close>, with their \<open>useState\<close> initial values.
\<close>

record AppState =
  gestureState :: GestureState
  appMode :: AppMode

definition App_initial :: AppState where
  "App_initial =
     \<lparr>gestureState = \<lparr>isHandDetected = False, gesture = NONE, handRotation = 0\<rparr>,
      appMode = TREE\<rparr>"

text \<open>
  The chain \<open>if (gesture === 'CLOSED_FIST') ... else if ... else if ...\<close> of
  \<open>handleGestureResult\<close>: the next value of \<open>appMode\<close>.
\<close>

definition modeTransition :: "Gesture \<Rightarrow> AppMode \<Rightarrow> AppMode" where
  "modeTransition g m =
     (if g = CLOSED_FIST then TREE
      else if g = OPEN_PALM then SCATTER
      else if g = PINCH then FOCUS
      else m)"

text \<open>The argument is \<open>result.worldLandmarks\<close>.\<close>

definition handleGestureResult :: "Landmark list list option \<Rightarrow> AppState \<Rightarrow> js_error + AppState" where
  "handleGestureResult landmarks st =
     (if landmarks \<noteq> None \<and> length (the landmarks) > 0 then
        (case classifyGesture landmarks of
           Inl e \<Rightarrow> Inl e
         | Inr r \<Rightarrow>
             Inr (st\<lparr>gestureState :=
                        \<lparr>isHandDetected = True, gesture = res_gesture r,
                         handRotation = res_rotation r\<rparr>,
                      appMode := modeTransition (res_gesture r) (appMode st)\<rparr>))
      else
        Inr (st\<lparr>gestureState := (gestureState st)\<lparr>isHandDetected := False, gesture := NONE\<rparr>\<rparr>))"

section \<open>Geometry generator (TreeScene.tsx, \<open>ornaments\<close>)\<close>

record Vector3 =
  vec_x :: real
  vec_y :: real
  vec_z :: real

record Euler =
  eul_x :: real
  eul_y :: real
  eul_z :: real

text \<open>
  \<open>OrnamentData\<close> of types.ts; the fields \<open>id\<close> and \<open>type\<close> carry the prefix
  \<open>orn_\<close>. An absent \<open>textureUrl\<close> is \<open>None\<close>.
\<close>

record OrnamentData =
  orn_id :: string
  orn_type :: OrnamentType
  positionTree :: Vector3
  positionScatter :: Vector3
  rotation :: Euler
  scale :: real
  color :: string
  textureUrl :: "string option"

text \<open>Decimal digits of an index, for the template strings of the ids.\<close>

definition digit_char :: "nat \<Rightarrow> char" where
  "digit_char d = char_of (48 + d)"

fun string_of_nat :: "nat \<Rightarrow> string" where
  "string_of_nat n =
     (if 10 \<le> n then string_of_nat (n div 10) @ [digit_char (n mod 10)]
      else [digit_char n])"

declare string_of_nat.simps [simp del]

text \<open>
  \<open>Math.random()\<close>: the results of the successive calls are a sequence
  \<open>rnd 0, rnd 1, ...\<close>, and \<open>k\<close> counts the calls made so far. Each value lies in
  the interval from 0 (included) to 1 (excluded); theorems that need the range assume it.
\<close>

definition getLuxuryColor :: "real \<Rightarrow> string" where
  "getLuxuryColor r =
     (if r > 60 / 100 then GOLD_PURE
      else if r > 45 / 100 then GOLD_CHAMPAGNE
      else if r > 35 / 100 then MATTE_BLACK
      else if r > 15 / 100 then RICH_RED
      else DEEP_GREEN)"

definition goldenAngle :: real where
  "goldenAngle = pi * (3 - sqrt 5)"

text \<open>
  The body of \<open>userImages.forEach((url, i) => ...)\<close>: the item pushed for photo
  \<open>i\<close> of \<open>len = userImages.length\<close>, with the three draws of its
  \<open>positionScatter\<close> taken from position \<open>k\<close>.
\<close>

definition photoItem :: "nat \<Rightarrow> (nat \<Rightarrow> real) \<Rightarrow> nat \<Rightarrow> nat \<Rightarrow> string \<Rightarrow> OrnamentData" where
  "photoItem len rnd k i url =
     (let t = (real i + 1) / (real len + 1);
          y = (t * TREE_HEIGHT * (7 / 10)) - (TREE_HEIGHT * (35 / 100));
          r = ((TREE_HEIGHT / 2) - y) / TREE_HEIGHT * TREE_RADIUS_BASE * (12 / 10);
          theta = real i * goldenAngle * 8 + pi;
          x = cos theta * r;
          z = sin theta * r
      in \<lparr>orn_id = ''photo-'' @ string_of_nat i,
          orn_type = PHOTO,
          positionTree = \<lparr>vec_x = x, vec_y = y, vec_z = z\<rparr>,
          positionScatter =
            \<lparr>vec_x = (rnd k - 1 / 2) * 35, vec_y = (rnd (k + 1) - 1 / 2) * 20,
             vec_z = (rnd (k + 2) - 1 / 2) * 10\<rparr>,
          rotation = \<lparr>eul_x = 0, eul_y = - theta - pi / 2, eul_z = 0\<rparr>,
          scale = 1,
          color = GOLD_PURE,
          textureUrl = Some url\<rparr>)"

fun photosLoop ::
  "nat \<Rightarrow> (nat \<Rightarrow> real) \<Rightarrow> string list \<Rightarrow> nat \<Rightarrow> OrnamentData list \<times> nat \<Rightarrow> OrnamentData list \<times> nat"
where
  "photosLoop len rnd [] i (items, k) = (items, k)"
| "photosLoop len rnd (url # urls) i (items, k) =
     photosLoop len rnd urls (i + 1) (items @ [photoItem len rnd k i url], k + 3)"

text \<open>
  The body of \<open>for (let i = 0; i < ORNAMENT_COUNT; i++)\<close>: ten draws, in the
  order of the calls (radius, type, colour, three of \<open>positionScatter\<close>, three of
  \<open>rotation\<close>, \<open>scale\<close>). \<open>n\<close> is the loop bound.
\<close>

definition gemItem :: "nat \<Rightarrow> (nat \<Rightarrow> real) \<Rightarrow> nat \<Rightarrow> nat \<Rightarrow> OrnamentData" where
  "gemItem n rnd k i =
     (let yNorm = real i / real n;
          y = (yNorm * TREE_HEIGHT) - (TREE_HEIGHT / 2);
          radiusAtHeight = ((TREE_HEIGHT / 2) - y) / TREE_HEIGHT * TREE_RADIUS_BASE;
          theta = real i * goldenAngle;
          r = radiusAtHeight * sqrt (rnd k * (3 / 10) + 7 / 10);
          x = cos theta * r;
          z = sin theta * r;
          type = (if rnd (k + 1) > 4 / 10 then GEM else PEARL);
          color = getLuxuryColor (rnd (k + 2))
      in \<lparr>orn_id = ''ornament-'' @ string_of_nat i,
          orn_type = type,
          positionTree = \<lparr>vec_x = x, vec_y = y, vec_z = z\<rparr>,
          positionScatter =
            \<lparr>vec_x = (rnd (k + 3) - 1 / 2) * 50, vec_y = (rnd (k + 4) - 1 / 2) * 35,
             vec_z = (rnd (k + 5) - 1 / 2) * 25\<rparr>,
          rotation =
            \<lparr>eul_x = rnd (k + 6) * pi, eul_y = rnd (k + 7) * pi, eul_z = rnd (k + 8) * pi\<rparr>,
          scale = rnd (k + 9) * (3 / 10) + 1 / 10,
          color = color,
          textureUrl = None\<rparr>)"

function gemsLoop ::
  "nat \<Rightarrow> (nat \<Rightarrow> real) \<Rightarrow> nat \<Rightarrow> OrnamentData list \<times> nat \<Rightarrow> OrnamentData list \<times> nat"
where
  "gemsLoop n rnd i (items, k) =
     (if i < n then gemsLoop n rnd (i + 1) (items @ [gemItem n rnd k i], k + 10)
      else (items, k))"
  by pat_completeness auto
termination
  by (relation "measure (\<lambda>(n, rnd, i, s). n - i)") auto

declare gemsLoop.simps [simp del]

text \<open>
  The \<open>useMemo\<close> callback with the loop bound as a parameter: the items, and the
  number of draws made when it returns. \<open>ornaments\<close> is the callback of the source,
  with the bound \<open>ORNAMENT_COUNT\<close>.
\<close>

definition generateOrnaments ::
  "nat \<Rightarrow> (nat \<Rightarrow> real) \<Rightarrow> nat \<Rightarrow> string list \<Rightarrow> OrnamentData list \<times> nat"
where
  "generateOrnaments n rnd k userImages =
     gemsLoop n rnd 0 (photosLoop (length userImages) rnd userImages 0 ([], k))"

definition ornaments :: "(nat \<Rightarrow> real) \<Rightarrow> nat \<Rightarrow> string list \<Rightarrow> OrnamentData list \<times> nat" where
  "ornaments rnd k userImages = generateOrnaments ORNAMENT_COUNT rnd k userImages"

section \<open>IEEE binary64 rounding (the arithmetic of \<open>Vector3.lerp\<close>)\<close>

text \<open>
  The result of an arithmetic operation on JavaScript numbers is the exact result
  rounded to the nearest binary64 value, a tie going to the value with the even
  significand. Around a real \<open>y\<close> with binary exponent \<open>e\<close> the binary64
  values are the multiples of \<open>2 powi (e - 52)\<close>; the exponent is not taken below
  -1022, so that the subnormal numbers are the multiples of \<open>2 powi (- 1074)\<close>.
  \<open>binary64 y\<close> is the rounded value of \<open>y\<close>, and a real is a binary64 value
  when rounding leaves it as it is.
\<close>

definition round_half_even :: "real \<Rightarrow> int" where
  "round_half_even q =
     (let f = \<lfloor>q\<rfloor>
      in if q - of_int f < 1 / 2 then f
         else if q - of_int f > 1 / 2 then f + 1
         else if even f then f else f + 1)"

definition binary64_exponent :: "real \<Rightarrow> int" where
  "binary64_exponent y = max \<lfloor>log 2 \<bar>y\<bar>\<rfloor> (- 1022)"

definition binary64_ulp :: "real \<Rightarrow> real" where
  "binary64_ulp y = 2 powi (binary64_exponent y - 52)"

definition binary64 :: "real \<Rightarrow> real" where
  "binary64 y =
     (if y = 0 then 0 else of_int (round_half_even (y / binary64_ulp y)) * binary64_ulp y)"

definition is_binary64 :: "real \<Rightarrow> bool" where
  "is_binary64 y = (binary64 y = y)"

text \<open>
  One coordinate of three.js's \<open>Vector3.lerp\<close>, \<open>this.x += (v.x - this.x) * alpha\<close>:
  a subtraction, a multiplication and an addition, each rounded.
\<close>

definition lerp1 :: "real \<Rightarrow> real \<Rightarrow> real \<Rightarrow> real" where
  "lerp1 x v alpha = binary64 (x + binary64 (binary64 (v - x) * alpha))"

section \<open>Animation driver (TreeScene.tsx, \<open>useFrame\<close>)\<close>

text \<open>
  What the frame callback reads from the renderer: the clock, the camera, the inverse
  of the group's world matrix as a map on points, and the orientation that three.js's
  \<open>lookAt\<close> gives an object for a point to face. They are parameters of the model.
\<close>

record Object3D =
  obj_position :: Vector3
  obj_scale :: Vector3
  obj_rotation :: Euler

record Group =
  grp_rotation_y :: real
  children :: "Object3D list"

record FrameEnv =
  elapsedTime :: real
  cameraPosition :: Vector3
  cameraDirection :: Vector3
  invWorld :: "Vector3 \<Rightarrow> Vector3"
  lookAtRotation :: "Object3D \<Rightarrow> Vector3 \<Rightarrow> Euler"

text \<open>
  The props and the hooks' state of \<open>TreeScene\<close>. \<open>userImagesRef\<close> is the identity
  of the \<open>userImages\<close> array (what \<open>useMemo\<close> compares), \<open>memoDeps\<close> and
  \<open>effectDeps\<close> are the dependencies of the last run of \<open>useMemo\<close> and of
  \<open>useEffect\<close> (\<open>None\<close> before the first render), \<open>randomCalls\<close> counts the calls
  of \<open>Math.random()\<close>. \<open>focusedIndex\<close> is a JavaScript number or \<open>undefined\<close>
  (\<open>None\<close>).
\<close>

record TreeSceneProps =
  mode :: AppMode
  userImages :: "string list"
  userImagesRef :: nat
  handRotationProp :: real

record TreeSceneState =
  ornamentsMemo :: "OrnamentData list"
  memoDeps :: "nat option"
  focusedIndex :: "int option"
  effectDeps :: "(AppMode \<times> nat) option"
  smoothRotation :: real
  groupRef :: "Group option"
  randomCalls :: nat

definition TreeScene_initial :: "nat \<Rightarrow> TreeSceneState" where
  "TreeScene_initial k =
     \<lparr>ornamentsMemo = [], memoDeps = None, focusedIndex = Some 0, effectDeps = None,
      smoothRotation = 0, groupRef = None, randomCalls = k\<rparr>"

text \<open>
  \<open>targetPos\<close> is a reference to a \<open>THREE.Vector3\<close> object: one of the two vectors
  stored in the ornament \<open>data\<close>, or a vector local to the callback. A write through
  the reference changes the object it refers to.
\<close>

datatype vec_ref = Ref_positionTree | Ref_positionScatter | Ref_local Vector3

fun deref :: "OrnamentData \<Rightarrow> vec_ref \<Rightarrow> Vector3" where
  "deref data Ref_positionTree = positionTree data"
| "deref data Ref_positionScatter = positionScatter data"
| "deref data (Ref_local v) = v"

text \<open>\<open>ref.y += d\<close>.\<close>

fun add_y :: "vec_ref \<Rightarrow> real \<Rightarrow> OrnamentData \<Rightarrow> vec_ref \<times> OrnamentData" where
  "add_y Ref_positionTree d data =
     (Ref_positionTree,
      data\<lparr>positionTree := (positionTree data)\<lparr>vec_y := vec_y (positionTree data) + d\<rparr>\<rparr>)"
| "add_y Ref_positionScatter d data =
     (Ref_positionScatter,
      data\<lparr>positionScatter := (positionScatter data)\<lparr>vec_y := vec_y (positionScatter data) + d\<rparr>\<rparr>)"
| "add_y (Ref_local v) d data = (Ref_local (v\<lparr>vec_y := vec_y v + d\<rparr>), data)"

text \<open>
  three.js: \<open>Vector3.lerp(v, alpha)\<close>, coordinate by coordinate in binary64
  arithmetic, and \<open>MathUtils.lerp(x, y, t)\<close>.
\<close>

definition Vector3_lerp :: "Vector3 \<Rightarrow> Vector3 \<Rightarrow> real \<Rightarrow> Vector3" where
  "Vector3_lerp this v alpha =
     \<lparr>vec_x = lerp1 (vec_x this) (vec_x v) alpha,
      vec_y = lerp1 (vec_y this) (vec_y v) alpha,
      vec_z = lerp1 (vec_z this) (vec_z v) alpha\<rparr>"

definition MathUtils_lerp :: "real \<Rightarrow> real \<Rightarrow> real \<Rightarrow> real" where
  "MathUtils_lerp x y t = (1 - t) * x + t * y"

text \<open>
  The block "State Logic" of the callback for child \<open>i\<close>: the reference
  \<open>targetPos\<close>, \<open>targetScale\<close>, and the ornament and the child as the block leaves
  them.
\<close>

definition stateLogic ::
  "AppMode \<Rightarrow> int option \<Rightarrow> FrameEnv \<Rightarrow> nat \<Rightarrow> OrnamentData \<Rightarrow> Object3D
     \<Rightarrow> vec_ref \<times> Vector3 \<times> OrnamentData \<times> Object3D"
where
  "stateLogic m fIndex env i data child =
     (let targetPos = Ref_positionTree;
          targetScale = \<lparr>vec_x = scale data, vec_y = scale data, vec_z = scale data\<rparr>
      in if m = SCATTER then
           (let targetPos = Ref_positionScatter;
                (targetPos, data) =
                   add_y targetPos
                     (sin (elapsedTime env * (1 / 2) + vec_x (positionScatter data)) * (5 / 100)) data
            in (targetPos, targetScale, data, child))
         else if m = FOCUS then
           (let targetPos = Ref_positionScatter
            in if orn_type data = PHOTO \<and> fIndex = Some (int i) then
                 (let camDir = cameraDirection env;
                      camPos = cameraPosition env;
                      centerPos =
                        \<lparr>vec_x = vec_x camPos + vec_x camDir * 5,
                         vec_y = vec_y camPos + vec_y camDir * 5,
                         vec_z = vec_z camPos + vec_z camDir * 5\<rparr>;
                      localTarget = invWorld env centerPos;
                      targetPos = Ref_local localTarget;
                      targetScale = \<lparr>vec_x = 4, vec_y = 4, vec_z = 4\<rparr>;
                      child = child\<lparr>obj_rotation := lookAtRotation env child (cameraPosition env)\<rparr>
                  in (targetPos, targetScale, data, child))
               else (targetPos, targetScale, data, child))
         else (targetPos, targetScale, data, child))"

definition lerpFactor :: "AppMode \<Rightarrow> real" where
  "lerpFactor m = (if m = FOCUS then 4 else 2)"

text \<open>The callback of \<open>children.forEach\<close> for a child whose ornament exists.\<close>

definition processChild ::
  "AppMode \<Rightarrow> int option \<Rightarrow> FrameEnv \<Rightarrow> real \<Rightarrow> nat \<Rightarrow> OrnamentData \<Rightarrow> Object3D
     \<Rightarrow> OrnamentData \<times> Object3D"
where
  "processChild m fIndex env delta i data child =
     (let (targetPos, targetScale, data, child) = stateLogic m fIndex env i data child;
          child = child\<lparr>obj_position :=
                    Vector3_lerp (obj_position child) (deref data targetPos)
                      (binary64 (delta * lerpFactor m))\<rparr>;
          child = child\<lparr>obj_scale :=
                    Vector3_lerp (obj_scale child) targetScale (binary64 (delta * lerpFactor m))\<rparr>;
          child =
            (if orn_type data \<noteq> PHOTO then
               child\<lparr>obj_rotation := (obj_rotation child)
                        \<lparr>eul_x := eul_x (obj_rotation child) + delta * (2 / 10),
                         eul_y := eul_y (obj_rotation child) + delta * (3 / 10)\<rparr>\<rparr>
             else child)
      in (data, child))"

text \<open>
  \<open>groupRef.current.children.forEach((child, i) => ...)\<close>, from index \<open>i\<close> on:
  a child with no ornament (\<open>if (!data) return\<close>) is left alone.
\<close>

fun forEachChild ::
  "AppMode \<Rightarrow> int option \<Rightarrow> FrameEnv \<Rightarrow> real \<Rightarrow> nat \<Rightarrow> Object3D list \<Rightarrow> OrnamentData list
     \<Rightarrow> Object3D list \<times> OrnamentData list"
where
  "forEachChild m fIndex env delta i [] orns = ([], orns)"
| "forEachChild m fIndex env delta i (child # rest) orns =
     (case js_nth orns i of
        None \<Rightarrow>
          (let (rest', orns') = forEachChild m fIndex env delta (i + 1) rest orns
           in (child # rest', orns'))
      | Some data \<Rightarrow>
          (let (data', child') = processChild m fIndex env delta i data child;
               (rest', orns') = forEachChild m fIndex env delta (i + 1) rest (orns[i := data'])
           in (child' # rest', orns')))"

definition useFrame :: "FrameEnv \<Rightarrow> real \<Rightarrow> TreeSceneProps \<Rightarrow> TreeSceneState \<Rightarrow> TreeSceneState" where
  "useFrame env delta props st =
     (case groupRef st of
        None \<Rightarrow> st
      | Some g \<Rightarrow>
          (let smooth = MathUtils_lerp (smoothRotation st) (handRotationProp props) (1 / 10);
               g = (if mode props \<noteq> FOCUS
                    then g\<lparr>grp_rotation_y := grp_rotation_y g + (2 / 10 + smooth * (15 / 10)) * delta\<rparr>
                    else g);
               (cs, orns) =
                 forEachChild (mode props) (focusedIndex st) env delta 0 (children g) (ornamentsMemo st)
           in st\<lparr>smoothRotation := smooth, groupRef := Some (g\<lparr>children := cs\<rparr>),
                 ornamentsMemo := orns\<rparr>))"





section \<open>Focus selector (TreeScene.tsx, \<open>useEffect\<close>)\<close>

text \<open>An array read at a computed index: \<open>undefined\<close> out of range.\<close>

definition js_at :: "'a list \<Rightarrow> int \<Rightarrow> 'a option" where
  "js_at xs j = (if 0 \<le> j \<and> j < int (length xs) then Some (xs ! nat j) else None)"

definition photoIndices :: "OrnamentData list \<Rightarrow> int list" where
  "photoIndices orns =
     filter (\<lambda>i. i \<noteq> - 1)
       (map (\<lambda>(i, orn). if orn_type orn = PHOTO then int i else - 1) (enumerate 0 orns))"

text \<open>The body of the effect.\<close>

definition focusEffect :: "(nat \<Rightarrow> real) \<Rightarrow> TreeSceneProps \<Rightarrow> TreeSceneState \<Rightarrow> TreeSceneState" where
  "focusEffect rnd props st =
     (if mode props = FOCUS \<and> length (userImages props) > 0 then
        (let pis = photoIndices (ornamentsMemo st)
         in if length pis > 0 then
              (let nextIndex = js_at pis \<lfloor>rnd (randomCalls st) * real (length pis)\<rfloor>
               in st\<lparr>focusedIndex := nextIndex, randomCalls := randomCalls st + 1\<rparr>)
            else st)
      else st)"

text \<open>
  One render of \<open>TreeScene\<close> with its effects. \<open>useMemo\<close> recomputes
  \<open>ornaments\<close> when the identity of \<open>userImages\<close> differs from the last run's.
  The JSX is then committed: the elements of the group (a \<open>mesh\<close>, or the \<open>group\<close>
  of a \<open>PhotoFrame\<close>) are made from the items, each with the props \<open>position\<close>,
  \<open>rotation\<close> and \<open>scale\<close> of its item, so after a render with recomputed
  items every child of the group carries its item's props (the
  group object itself, with its rotation, is kept once it exists); with the memoised
  items the props are the same objects as before and the children are left as they
  are. The effect runs after the commit of the first render and of a render in which
  \<open>mode\<close> or \<open>userImages.length\<close> differs from the last run's, on the ornaments of
  that render.
\<close>

definition mountedChild :: "OrnamentData \<Rightarrow> Object3D" where
  "mountedChild item =
     \<lparr>obj_position = positionTree item,
      obj_scale = \<lparr>vec_x = scale item, vec_y = scale item, vec_z = scale item\<rparr>,
      obj_rotation = rotation item\<rparr>"

definition commitChildren :: "Group option \<Rightarrow> OrnamentData list \<Rightarrow> Group" where
  "commitChildren old items =
     \<lparr>grp_rotation_y = (case old of None \<Rightarrow> 0 | Some g \<Rightarrow> grp_rotation_y g),
      children = map mountedChild items\<rparr>"

definition useMemo_ornaments :: "(nat \<Rightarrow> real) \<Rightarrow> TreeSceneProps \<Rightarrow> TreeSceneState \<Rightarrow> TreeSceneState" where
  "useMemo_ornaments rnd props st =
     (if memoDeps st = Some (userImagesRef props) then st
      else
        (let (items, k) = ornaments rnd (randomCalls st) (userImages props)
         in st\<lparr>ornamentsMemo := items, randomCalls := k,
               memoDeps := Some (userImagesRef props)\<rparr>))"

definition useEffect_focus :: "(nat \<Rightarrow> real) \<Rightarrow> TreeSceneProps \<Rightarrow> TreeSceneState \<Rightarrow> TreeSceneState" where
  "useEffect_focus rnd props st =
     (let deps = (mode props, length (userImages props))
      in if effectDeps st = Some deps then st
         else (focusEffect rnd props st)\<lparr>effectDeps := Some deps\<rparr>)"

definition commitTreeScene :: "TreeSceneProps \<Rightarrow> TreeSceneState \<Rightarrow> TreeSceneState \<Rightarrow> TreeSceneState" where
  "commitTreeScene props before st =
     (if memoDeps before = Some (userImagesRef props) then st
      else st\<lparr>groupRef := Some (commitChildren (groupRef before) (ornamentsMemo st))\<rparr>)"

definition renderTreeScene :: "(nat \<Rightarrow> real) \<Rightarrow> TreeSceneProps \<Rightarrow> TreeSceneState \<Rightarrow> TreeSceneState" where
  "renderTreeScene rnd props st =
     useEffect_focus rnd props (commitTreeScene props st (useMemo_ornaments rnd props st))"

text \<open>
  The scene between renders: the renderer calls the frame callback once per frame,
  with the props of the last render, and React renders again when the props change.
  \<open>sceneChildren\<close> is \<open>groupRef.current.children\<close> (no child before the mount).
\<close>

definition sceneChildren :: "TreeSceneState \<Rightarrow> Object3D list" where
  "sceneChildren st = (case groupRef st of None \<Rightarrow> [] | Some g \<Rightarrow> children g)"


datatype SceneEvent = Frame FrameEnv real | Render TreeSceneProps

fun sceneStep :: "(nat \<Rightarrow> real) \<Rightarrow> TreeSceneProps \<times> TreeSceneState \<Rightarrow> SceneEvent
    \<Rightarrow> TreeSceneProps \<times> TreeSceneState" where
  "sceneStep rnd (props, st) (Frame env delta) = (props, useFrame env delta props st)"
| "sceneStep rnd (props, st) (Render props') = (props', renderTreeScene rnd props' st)"

definition sceneRun :: "(nat \<Rightarrow> real) \<Rightarrow> SceneEvent list \<Rightarrow> TreeSceneProps \<times> TreeSceneState
    \<Rightarrow> TreeSceneProps \<times> TreeSceneState" where
  "sceneRun rnd events s = foldl (sceneStep rnd) s events"

text \<open>The dependencies \<open>[mode, userImages.length]\<close> of the effect, for given props.\<close>

definition effectDepsOf :: "TreeSceneProps \<Rightarrow> AppMode \<times> nat" where
  "effectDepsOf props = (mode props, length (userImages props))"

text \<open>The renders among the events, in order.\<close>

fun rendersOf :: "SceneEvent list \<Rightarrow> TreeSceneProps list" where
  "rendersOf [] = []"
| "rendersOf (Frame env delta # events) = rendersOf events"
| "rendersOf (Render props # events) = props # rendersOf events"

section \<open>Observations of a frame, and example scenes\<close>

text \<open>
  What the block "State Logic" hands to the interpolation for child \<open>i\<close>: the value
  of the vector \<open>targetPos\<close> refers to when the block ends, and \<open>targetScale\<close>.
\<close>

definition targetOf :: "AppMode \<Rightarrow> int option \<Rightarrow> FrameEnv \<Rightarrow> nat \<Rightarrow> OrnamentData \<Rightarrow> Object3D \<Rightarrow> Vector3 \<times> Vector3" where
  "targetOf m fIndex env i data child =
     (let (targetPos, targetScale, data', child') = stateLogic m fIndex env i data child
      in (deref data' targetPos, targetScale))"

text \<open>The "floating sensation" term of SCATTER mode.\<close>

definition floatOffset :: "FrameEnv \<Rightarrow> OrnamentData \<Rightarrow> real" where
  "floatOffset env data = sin (elapsedTime env * (1 / 2) + vec_x (positionScatter data)) * (5 / 100)"

text \<open>\<open>mountedScene\<close> is the state after the first render, with the group mounted.\<close>

definition mountedScene :: "(nat \<Rightarrow> real) \<Rightarrow> TreeSceneProps \<Rightarrow> TreeSceneState" where
  "mountedScene rnd props = renderTreeScene rnd props (TreeScene_initial 0)"

text \<open>Example props (no photos) and an example camera and clock.\<close>

definition demo_props :: "AppMode \<Rightarrow> TreeSceneProps" where
  "demo_props m = \<lparr>mode = m, userImages = [], userImagesRef = 0, handRotationProp = 0\<rparr>"

definition demo_env :: "real \<Rightarrow> FrameEnv" where
  "demo_env t =
     \<lparr>elapsedTime = t,
      cameraPosition = \<lparr>vec_x = 0, vec_y = 0, vec_z = 25\<rparr>,
      cameraDirection = \<lparr>vec_x = 0, vec_y = 0, vec_z = - 1\<rparr>,
      invWorld = (\<lambda>v. v),
      lookAtRotation = (\<lambda>obj v. \<lparr>eul_x = 0, eul_y = 0, eul_z = 0\<rparr>)\<rparr>"

text \<open>Props after an upload of three photos while the mode is FOCUS.\<close>

definition upload_props :: TreeSceneProps where
  "upload_props =
     \<lparr>mode = FOCUS, userImages = [''a.png'', ''b.png'', ''c.png''], userImagesRef = 1,
      handRotationProp = 0\<rparr>"

section \<open>The classifier as the specification words it\<close>

text \<open>
  The rules of the specification for a hand \<open>lm\<close> with all 21 landmarks, written from
  its words: a finger is folded when its tip is nearer to the wrist (landmark 0) than
  its base knuckle; the label is Pinch when thumb tip (4) and index tip (8) are less than
  0.05 apart, else ClosedFist when at least 3 of the 4 non-thumb fingers are folded, else
  OpenPalm; the tilt is the height difference of pinky base (17) and thumb base (2),
  times 5, clamped to the interval from -1 to 1.
\<close>

definition spec_foldedCount :: "Landmark list \<Rightarrow> nat" where
  "spec_foldedCount lm =
     length (filter (\<lambda>(tip, knuckle). dist_lm (lm ! tip) (lm ! 0) < dist_lm (lm ! knuckle) (lm ! 0))
       [(8, 5), (12, 9), (16, 13), (20, 17)])"

definition spec_label :: "Landmark list \<Rightarrow> Gesture" where
  "spec_label lm =
     (if dist_lm (lm ! 4) (lm ! 8) < 5 / 100 then PINCH
      else if 3 \<le> spec_foldedCount lm then CLOSED_FIST else OPEN_PALM)"

definition spec_tilt :: "Landmark list \<Rightarrow> real" where
  "spec_tilt lm = max (- 1) (min 1 ((lm_y (lm ! 17) - lm_y (lm ! 2)) * 5))"

text \<open>Example hands.\<close>

definition origin_lm :: Landmark where
  "origin_lm = \<lparr>lm_x = 0, lm_y = 0, lm_z = 0\<rparr>"

definition unit_lm :: Landmark where
  "unit_lm = \<lparr>lm_x = 1, lm_y = 0, lm_z = 0\<rparr>"


text \<open>All landmarks at the wrist but the four fingertips: an open hand.\<close>

definition open_hand :: "Landmark list" where
  "open_hand = (replicate 21 origin_lm)[8 := unit_lm, 12 := unit_lm, 16 := unit_lm, 20 := unit_lm]"

section \<open>Properties of the gesture classifier and the mode state machine\<close>

lemma js_nth_Some: "i < length xs \<Longrightarrow> js_nth xs i = Some (xs ! i)"
  by (simp add: js_nth_def)

lemma js_nth_None: "length xs \<le> i \<Longrightarrow> js_nth xs i = None"
  by (simp add: js_nth_def)

lemma countFolded_defined:
  "countFolded (Some w) (map (\<lambda>(t, k). (Some t, Some k)) ps) n =
     Inr (n + length (filter (\<lambda>(t, k). dist_lm t w < dist_lm k w) ps))"
  by (induction ps arbitrary: n) (auto simp: dist_u_def)

lemma calculateHandRotation_full:
  "18 \<le> length lm \<Longrightarrow> calculateHandRotation (Some (lm # hs)) = Inr (spec_tilt lm)"
  by (simp add: calculateHandRotation_def js_nth_Some spec_tilt_def)

lemma countFolded_full:
  assumes "21 \<le> length lm"
  shows "countFolded (js_nth lm 0)
           [(js_nth lm 8, js_nth lm 5), (js_nth lm 12, js_nth lm 9),
            (js_nth lm 16, js_nth lm 13), (js_nth lm 20, js_nth lm 17)] 0
         = Inr (spec_foldedCount lm)"
proof -
  have nth: "js_nth lm i = Some (lm ! i)" if "i \<le> 20" for i
    using assms that by (simp add: js_nth_Some)
  show ?thesis
    using countFolded_defined [of "lm ! 0"
        "[(lm ! 8, lm ! 5), (lm ! 12, lm ! 9), (lm ! 16, lm ! 13), (lm ! 20, lm ! 17)]" 0]
    by (simp add: nth spec_foldedCount_def del: countFolded.simps)
qed

lemma classifyGesture_full:
  assumes "21 \<le> length lm"
  shows "classifyGesture (Some (lm # hs)) = Inr \<lparr>res_gesture = spec_label lm, res_rotation = spec_tilt lm\<rparr>"
proof -
  have rot: "calculateHandRotation (Some (lm # hs)) = Inr (spec_tilt lm)"
    using assms by (simp add: calculateHandRotation_full)
  have pinch: "dist_u (js_nth lm 4) (js_nth lm 8) = Inr (dist_lm (lm ! 4) (lm ! 8))"
    using assms by (simp add: dist_u_def js_nth_Some)
  show ?thesis
    by (simp add: classifyGesture_def rot pinch countFolded_full [OF assms] spec_label_def
          del: countFolded.simps)
qed

lemma classifyGesture_absent:
  "classifyGesture None = Inr \<lparr>res_gesture = NONE, res_rotation = 0\<rparr>"
  "classifyGesture (Some []) = Inr \<lparr>res_gesture = NONE, res_rotation = 0\<rparr>"
  by (simp_all add: classifyGesture_def calculateHandRotation_def)

lemma classifyGesture_too_short:
  assumes "length lm < 18"
  shows "classifyGesture (Some (lm # hs)) = Inl TypeError"
  using assms by (simp add: classifyGesture_def calculateHandRotation_def js_nth_None)

lemma countFolded_last_undefined:
  "countFolded (Some w) [(Some a, Some b), (Some c, Some d), (Some e, Some f), (None, Some g)] n
     = Inl TypeError"
  by (simp add: dist_u_def)

lemma classifyGesture_nearly_full:
  assumes "18 \<le> length lm" "length lm < 21"
  shows "classifyGesture (Some (lm # hs)) =
           (if dist_lm (lm ! 4) (lm ! 8) < 5 / 100
            then Inr \<lparr>res_gesture = PINCH, res_rotation = spec_tilt lm\<rparr>
            else Inl TypeError)"
proof -
  have rot: "calculateHandRotation (Some (lm # hs)) = Inr (spec_tilt lm)"
    using assms by (simp add: calculateHandRotation_full)
  have nth: "js_nth lm i = Some (lm ! i)" if "i \<le> 17" for i
    using assms that by (simp add: js_nth_Some)
  have last: "js_nth lm 20 = None"
    using assms by (simp add: js_nth_None)
  have pinch: "dist_u (js_nth lm 4) (js_nth lm 8) = Inr (dist_lm (lm ! 4) (lm ! 8))"
    by (simp add: dist_u_def nth)
  have loop: "countFolded (js_nth lm 0)
           [(js_nth lm 8, js_nth lm 5), (js_nth lm 12, js_nth lm 9),
            (js_nth lm 16, js_nth lm 13), (js_nth lm 20, js_nth lm 17)] 0 = Inl TypeError"
    by (simp add: nth last countFolded_last_undefined del: countFolded.simps)
  show ?thesis
    by (simp add: classifyGesture_def rot pinch loop del: countFolded.simps)
qed

lemma spec_label_cases: "spec_label lm = PINCH \<or> spec_label lm = CLOSED_FIST \<or> spec_label lm = OPEN_PALM"
  by (simp add: spec_label_def)

lemma classifyGesture_label_not_NONE:
  assumes "classifyGesture (Some (lm # hs)) = Inr r"
  shows "res_gesture r \<noteq> NONE"
proof (cases "21 \<le> length lm")
  case True
  with assms have "r = \<lparr>res_gesture = spec_label lm, res_rotation = spec_tilt lm\<rparr>"
    by (simp add: classifyGesture_full)
  then show ?thesis using spec_label_cases [of lm] by auto
next
  case False
  show ?thesis
  proof (cases "length lm < 18")
    case True
    with assms show ?thesis by (simp add: classifyGesture_too_short)
  next
    case False
    with \<open>\<not> 21 \<le> length lm\<close> have "18 \<le> length lm" "length lm < 21" by simp_all
    from classifyGesture_nearly_full [OF this, of hs] assms show ?thesis
      by (auto split: if_splits)
  qed
qed

lemma dist_lm_examples [simp]:
  "dist_lm origin_lm origin_lm = 0" "dist_lm unit_lm unit_lm = 0"
  "dist_lm unit_lm origin_lm = 1" "dist_lm origin_lm unit_lm = 1"
  by (simp_all add: dist_lm_def origin_lm_def unit_lm_def)



text \<open>
  C10 as stated fails: a landmark input with one hand entry of 5 landmarks is neither
  absent nor empty, yet \<open>classifyGesture\<close> returns no label for it: it throws a
  TypeError (landmark 17 is read for the tilt).
\<close>

theorem classifyGesture_present_hand_counterexample:
  "Some [replicate 5 origin_lm] \<noteq> None \<and> Some [replicate 5 origin_lm] \<noteq> Some []
   \<and> classifyGesture (Some [replicate 5 origin_lm]) = Inl TypeError
   \<and> (\<forall>r. classifyGesture (Some [replicate 5 origin_lm]) \<noteq> Inr r)"
  by (simp add: classifyGesture_too_short)

text \<open>
  C10, amended: \<open>classifyGesture\<close> returns the label NONE for an absent or empty
  landmark input; whenever it returns a result, the label is NONE exactly when the input
  is absent or empty. For an input with at least one hand entry it either throws a
  TypeError or returns a result whose label is OPEN_PALM, CLOSED_FIST or PINCH; it throws
  exactly when the first hand has fewer than 18 landmarks, or fewer than 21 and thumb tip
  and index tip at least 0.05 apart; so for every input whose first hand has its 21
  landmarks it returns one of the three labels.
\<close>

theorem classifyGesture_NONE_iff_absent:
  "classifyGesture None = Inr \<lparr>res_gesture = NONE, res_rotation = 0\<rparr>
   \<and> classifyGesture (Some []) = Inr \<lparr>res_gesture = NONE, res_rotation = 0\<rparr>
   \<and> (classifyGesture landmarks = Inr r
        \<longrightarrow> (res_gesture r = NONE) = (landmarks = None \<or> landmarks = Some []))
   \<and> (21 \<le> length lm
        \<longrightarrow> (\<exists>r'. classifyGesture (Some (lm # hs)) = Inr r'
                  \<and> res_gesture r' \<in> {OPEN_PALM, CLOSED_FIST, PINCH}))
   \<and> (classifyGesture (Some (lm # hs)) = Inl TypeError
        \<or> (\<exists>r'. classifyGesture (Some (lm # hs)) = Inr r'
                 \<and> res_gesture r' \<in> {OPEN_PALM, CLOSED_FIST, PINCH}))
   \<and> ((classifyGesture (Some (lm # hs)) = Inl TypeError)
        = (length lm < 18 \<or> (length lm < 21 \<and> \<not> dist_lm (lm ! 4) (lm ! 8) < 5 / 100)))"
proof (intro conjI impI)
  assume ret: "classifyGesture landmarks = Inr r"
  show "(res_gesture r = NONE) = (landmarks = None \<or> landmarks = Some [])"
  proof (cases landmarks)
    case None
    with ret show ?thesis by (auto simp: classifyGesture_absent)
  next
    case (Some hands)
    show ?thesis
    proof (cases hands)
      case Nil
      with Some ret show ?thesis by (auto simp: classifyGesture_absent)
    next
      case (Cons h rest)
      with Some ret show ?thesis using classifyGesture_label_not_NONE [of h rest r] by simp
    qed
  qed
next
  assume "21 \<le> length lm"
  then have "classifyGesture (Some (lm # hs)) =
      Inr \<lparr>res_gesture = spec_label lm, res_rotation = spec_tilt lm\<rparr>"
    by (rule classifyGesture_full)
  then show "\<exists>r'. classifyGesture (Some (lm # hs)) = Inr r'
      \<and> res_gesture r' \<in> {OPEN_PALM, CLOSED_FIST, PINCH}"
    using spec_label_cases [of lm] by auto
next
  show "classifyGesture (Some (lm # hs)) = Inl TypeError
        \<or> (\<exists>r'. classifyGesture (Some (lm # hs)) = Inr r'
                 \<and> res_gesture r' \<in> {OPEN_PALM, CLOSED_FIST, PINCH})"
  proof (cases "classifyGesture (Some (lm # hs))")
    case (Inl e)
    then show ?thesis by (cases e) simp
  next
    case (Inr r')
    from classifyGesture_label_not_NONE [OF Inr] have "res_gesture r' \<in> {OPEN_PALM, CLOSED_FIST, PINCH}"
      by (cases "res_gesture r'") simp_all
    with Inr show ?thesis by simp
  qed
next
  show "(classifyGesture (Some (lm # hs)) = Inl TypeError)
        = (length lm < 18 \<or> (length lm < 21 \<and> \<not> dist_lm (lm ! 4) (lm ! 8) < 5 / 100))"
  proof (cases "21 \<le> length lm")
    case True
    then show ?thesis by (simp add: classifyGesture_full)
  next
    case False
    show ?thesis
    proof (cases "length lm < 18")
      case True
      then show ?thesis by (simp add: classifyGesture_too_short)
    next
      case False
      with \<open>\<not> 21 \<le> length lm\<close> have "18 \<le> length lm" "length lm < 21" by simp_all
      then show ?thesis by (simp add: classifyGesture_nearly_full)
    qed
  qed
qed (simp_all add: classifyGesture_absent)

theorem classifyGesture_NONE_iff_absent_witness:
  "classifyGesture (Some [open_hand]) = Inr \<lparr>res_gesture = OPEN_PALM, res_rotation = 0\<rparr>
   \<and> res_gesture \<lparr>res_gesture = OPEN_PALM, res_rotation = 0\<rparr> \<noteq> NONE
   \<and> Some [open_hand] \<noteq> None \<and> Some [open_hand] \<noteq> Some []
   \<and> 21 \<le> length open_hand
   \<and> (\<exists>r'. classifyGesture (Some [open_hand]) = Inr r'
          \<and> res_gesture r' \<in> {OPEN_PALM, CLOSED_FIST, PINCH})
   \<and> length (replicate 5 origin_lm) < 18
   \<and> classifyGesture (Some [replicate 5 origin_lm]) = Inl TypeError"
proof -
  have run: "classifyGesture (Some [open_hand]) = Inr \<lparr>res_gesture = OPEN_PALM, res_rotation = 0\<rparr>"
    by (simp add: classifyGesture_full open_hand_def spec_label_def spec_foldedCount_def
          spec_tilt_def origin_lm_def [THEN arg_cong, of lm_y] unit_lm_def [THEN arg_cong, of lm_y])
  have len: "21 \<le> length open_hand"
    by (simp add: open_hand_def)
  have short: "classifyGesture (Some [replicate 5 origin_lm]) = Inl TypeError"
    using classifyGesture_NONE_iff_absent [where lm = "replicate 5 origin_lm" and hs = "[]"]
    by simp
  from classifyGesture_NONE_iff_absent
         [of "Some [open_hand]" "\<lparr>res_gesture = OPEN_PALM, res_rotation = 0\<rparr>" open_hand "[]"]
       run len short
  show ?thesis by simp
qed

text \<open>
  C2 as stated fails: a hand entry with 20 landmarks that is not pinching makes
  \<open>classifyGesture\<close> throw a TypeError (landmark 20 is read in the folding loop)
  instead of returning the absent-hand result.
\<close>

theorem classifyGesture_short_hand_counterexample:
  "length ((replicate 20 origin_lm)[8 := unit_lm]) < 21
   \<and> classifyGesture (Some [(replicate 20 origin_lm)[8 := unit_lm]]) = Inl TypeError
   \<and> classifyGesture (Some [(replicate 20 origin_lm)[8 := unit_lm]])
        \<noteq> Inr \<lparr>res_gesture = NONE, res_rotation = 0\<rparr>"
  by (simp add: classifyGesture_nearly_full)

text \<open>
  C2, amended: for a zero-length landmark list \<open>classifyGesture\<close> returns
  NONE with rotation 0 without throwing. A hand entry with fewer than 21 landmarks is
  not treated as an absent hand: with fewer than 18 landmarks the call throws a
  TypeError; with 18, 19 or 20 landmarks it returns PINCH (with the tilt) when thumb tip
  and index tip are less than 0.05 apart and throws a TypeError otherwise.
\<close>

theorem classifyGesture_short_hand:
  "classifyGesture (Some []) = Inr \<lparr>res_gesture = NONE, res_rotation = 0\<rparr>
   \<and> (length lm < 18 \<longrightarrow> classifyGesture (Some (lm # hs)) = Inl TypeError)
   \<and> (18 \<le> length lm \<and> length lm < 21 \<longrightarrow>
        classifyGesture (Some (lm # hs)) =
          (if dist_lm (lm ! 4) (lm ! 8) < 5 / 100
           then Inr \<lparr>res_gesture = PINCH, res_rotation = spec_tilt lm\<rparr>
           else Inl TypeError))"
  by (simp add: classifyGesture_absent classifyGesture_too_short classifyGesture_nearly_full)

theorem classifyGesture_short_hand_witness:
  "length (replicate 3 origin_lm) < 18
   \<and> classifyGesture (Some [replicate 3 origin_lm]) = Inl TypeError
   \<and> 18 \<le> length (replicate 19 origin_lm) \<and> length (replicate 19 origin_lm) < 21
   \<and> classifyGesture (Some [replicate 19 origin_lm]) =
        Inr \<lparr>res_gesture = PINCH, res_rotation = 0\<rparr>"
  using classifyGesture_short_hand [of "replicate 3 origin_lm" "[]"]
        classifyGesture_short_hand [of "replicate 19 origin_lm" "[]"]
  by (simp add: spec_tilt_def origin_lm_def [THEN arg_cong, of lm_y])

text \<open>
  C5: the mode starts as TREE (Aggregated); a classifier label moves it by
  CLOSED_FIST to TREE, OPEN_PALM to SCATTER, PINCH to FOCUS, and NONE keeps it; from TREE
  the labels OPEN_PALM, NONE, OPEN_PALM end in SCATTER; receiving a label twice, or the
  label of the current mode, changes nothing more. \<open>handleGestureResult\<close> keeps the mode
  when no hand is reported and applies this transition to the label of
  \<open>classifyGesture\<close> otherwise.
\<close>

theorem mode_state_machine:
  "appMode App_initial = TREE
   \<and> modeTransition CLOSED_FIST m = TREE
   \<and> modeTransition OPEN_PALM m = SCATTER
   \<and> modeTransition PINCH m = FOCUS
   \<and> modeTransition NONE m = m
   \<and> foldl (\<lambda>m' g. modeTransition g m') (appMode App_initial) [OPEN_PALM, NONE, OPEN_PALM] = SCATTER
   \<and> modeTransition g (modeTransition g m) = modeTransition g m
   \<and> modeTransition CLOSED_FIST TREE = TREE
   \<and> modeTransition OPEN_PALM SCATTER = SCATTER
   \<and> modeTransition PINCH FOCUS = FOCUS
   \<and> map_sum id appMode (handleGestureResult None st) = Inr (appMode st)
   \<and> map_sum id appMode (handleGestureResult (Some []) st) = Inr (appMode st)
   \<and> map_sum id appMode (handleGestureResult (Some (lm # hs)) st) =
       map_sum id (\<lambda>r. modeTransition (res_gesture r) (appMode st)) (classifyGesture (Some (lm # hs)))"
  by (simp add: App_initial_def modeTransition_def handleGestureResult_def split: sum.split)

section \<open>Properties of the geometry generator\<close>

lemma photosLoop_eq:
  "photosLoop len rnd urls i (items, k) =
     (items @ map (\<lambda>j. photoItem len rnd (k + 3 * j) (i + j) (urls ! j)) [0..<length urls],
      k + 3 * length urls)"
proof (induction urls arbitrary: i items k)
  case Nil
  show ?case by simp
next
  case (Cons url urls)
  have "map (\<lambda>j. photoItem len rnd (k + 3 * j) (i + j) ((url # urls) ! j)) [0..<length (url # urls)]
      = photoItem len rnd k i url
        # map (\<lambda>j. photoItem len rnd (k + 3 + 3 * j) (i + 1 + j) (urls ! j)) [0..<length urls]"
    by (simp add: upt_conv_Cons map_Suc_upt [symmetric] add.assoc del: upt_Suc)
  then show ?case
    by (simp add: Cons.IH del: upt_Suc)
qed

lemma gemsLoop_eq:
  "gemsLoop n rnd i (items, k) =
     (items @ map (\<lambda>j. gemItem n rnd (k + 10 * (j - i)) j) [i..<n], k + 10 * (n - i))"
proof (induction n rnd i "(items, k)" arbitrary: items k rule: gemsLoop.induct)
  case (1 n rnd i items k)
  show ?case
  proof (cases "i < n")
    case True
    have "map (\<lambda>j. gemItem n rnd (k + 10 * (j - i)) j) [i..<n]
        = gemItem n rnd k i # map (\<lambda>j. gemItem n rnd (k + 10 + 10 * (j - (i + 1))) j) [i + 1..<n]"
    proof -
      have "k + 10 * (j - i) = k + 10 + 10 * (j - (i + 1))" if "i + 1 \<le> j" for j
        using that by simp
      then have "map (\<lambda>j. gemItem n rnd (k + 10 * (j - i)) j) [i + 1..<n]
          = map (\<lambda>j. gemItem n rnd (k + 10 + 10 * (j - (i + 1))) j) [i + 1..<n]"
        by (intro map_cong) (auto simp: add.assoc)
      with True show ?thesis
        by (simp add: upt_conv_Cons del: upt_Suc)
    qed
    moreover have "k + 10 + 10 * (n - (i + 1)) = k + 10 * (n - i)"
      using True by simp
    ultimately show ?thesis
      using True "1.hyps" [OF True] by (subst gemsLoop.simps) simp
  next
    case False
    then show ?thesis by (subst gemsLoop.simps) simp
  qed
qed

lemma generateOrnaments_eq:
  "generateOrnaments n rnd k imgs =
     (map (\<lambda>j. photoItem (length imgs) rnd (k + 3 * j) j (imgs ! j)) [0..<length imgs]
        @ map (\<lambda>j. gemItem n rnd (k + 3 * length imgs + 10 * j) j) [0..<n],
      k + 3 * length imgs + 10 * n)"
  by (simp add: generateOrnaments_def photosLoop_eq gemsLoop_eq)

lemma generateOrnaments_length:
  "length (fst (generateOrnaments n rnd k imgs)) = n + length imgs"
  by (simp add: generateOrnaments_eq)

lemma generateOrnaments_photo:
  "j < length imgs \<Longrightarrow>
     fst (generateOrnaments n rnd k imgs) ! j
       = photoItem (length imgs) rnd (k + 3 * j) j (imgs ! j)"
  by (simp add: generateOrnaments_eq nth_append)

lemma generateOrnaments_gem:
  "j < n \<Longrightarrow>
     fst (generateOrnaments n rnd k imgs) ! (length imgs + j)
       = gemItem n rnd (k + 3 * length imgs + 10 * j) j"
  by (simp add: generateOrnaments_eq nth_append)

lemma orn_type_photoItem [simp]: "orn_type (photoItem len rnd k i url) = PHOTO"
  by (simp add: photoItem_def Let_def)

lemma orn_type_gemItem [simp]: "orn_type (gemItem n rnd k i) \<noteq> PHOTO"
  by (simp add: gemItem_def Let_def)

lemma photoItem_height:
  "vec_y (positionTree (photoItem len rnd k i url))
     = (real i + 1) / (real len + 1) * TREE_HEIGHT * (7 / 10) - TREE_HEIGHT * (35 / 100)"
  by (simp add: photoItem_def Let_def)

lemma photoItem_band:
  assumes "i < len"
  shows "- (35 / 100) * TREE_HEIGHT < vec_y (positionTree (photoItem len rnd k i url))"
    and "vec_y (positionTree (photoItem len rnd k i url)) < 35 / 100 * TREE_HEIGHT"
proof -
  define t where "t = (real i + 1) / (real len + 1)"
  have t0: "0 < t" by (simp add: t_def)
  have t1: "t < 1" using assms by (simp add: t_def)
  have y: "vec_y (positionTree (photoItem len rnd k i url)) = t * 15 * (7 / 10) - 15 * (35 / 100)"
    unfolding photoItem_height TREE_HEIGHT_def t_def ..
  show "- (35 / 100) * TREE_HEIGHT < vec_y (positionTree (photoItem len rnd k i url))"
    unfolding y TREE_HEIGHT_def using t0 by simp
  show "vec_y (positionTree (photoItem len rnd k i url)) < 35 / 100 * TREE_HEIGHT"
    unfolding y TREE_HEIGHT_def using t1 by simp
qed

lemma generateOrnaments_photo_count:
  "length (filter (\<lambda>orn. orn_type orn = PHOTO) (fst (generateOrnaments n rnd k imgs)))
     = length imgs"
  by (simp add: generateOrnaments_eq filter_map comp_def)


lemma gemItem_positionTree:
  "positionTree (gemItem n rnd k i) =
     \<lparr>vec_x = cos (real i * goldenAngle) *
               ((TREE_HEIGHT / 2 - (real i / real n * TREE_HEIGHT - TREE_HEIGHT / 2)) / TREE_HEIGHT
                  * TREE_RADIUS_BASE * sqrt (rnd k * (3 / 10) + 7 / 10)),
      vec_y = real i / real n * TREE_HEIGHT - TREE_HEIGHT / 2,
      vec_z = sin (real i * goldenAngle) *
               ((TREE_HEIGHT / 2 - (real i / real n * TREE_HEIGHT - TREE_HEIGHT / 2)) / TREE_HEIGHT
                  * TREE_RADIUS_BASE * sqrt (rnd k * (3 / 10) + 7 / 10))\<rparr>"
  by (simp add: gemItem_def Let_def)

text \<open>
  C9: for every loop bound \<open>n\<close> and every photo list, the generator returns as
  many items as \<open>n\<close> plus the number of photos, of which exactly as many as there
  are photos have type PHOTO;
  the photo slots come first, in the order of the photo list, the \<open>n\<close> decorations
  after them; and the tree-layout height of every photo slot lies strictly between
  -0.35 and 0.35 times \<open>TREE_HEIGHT\<close>. In the source the bound is \<open>ORNAMENT_COUNT\<close>.
\<close>

theorem generateOrnaments_counts_and_band:
  "length (fst (generateOrnaments n rnd k imgs)) = n + length imgs
   \<and> length (filter (\<lambda>orn. orn_type orn = PHOTO) (fst (generateOrnaments n rnd k imgs)))
       = length imgs
   \<and> (\<forall>i. i < length imgs \<longrightarrow>
         orn_type (fst (generateOrnaments n rnd k imgs) ! i) = PHOTO
         \<and> textureUrl (fst (generateOrnaments n rnd k imgs) ! i) = Some (imgs ! i)
         \<and> - (35 / 100) * TREE_HEIGHT < vec_y (positionTree (fst (generateOrnaments n rnd k imgs) ! i))
         \<and> vec_y (positionTree (fst (generateOrnaments n rnd k imgs) ! i)) < 35 / 100 * TREE_HEIGHT)
   \<and> (\<forall>i. i < n \<longrightarrow> orn_type (fst (generateOrnaments n rnd k imgs) ! (length imgs + i)) \<noteq> PHOTO)
   \<and> ornaments rnd k imgs = generateOrnaments ORNAMENT_COUNT rnd k imgs"
proof (intro conjI allI impI)
  fix i assume i: "i < length imgs"
  then have item: "fst (generateOrnaments n rnd k imgs) ! i
      = photoItem (length imgs) rnd (k + 3 * i) i (imgs ! i)"
    by (rule generateOrnaments_photo)
  show "orn_type (fst (generateOrnaments n rnd k imgs) ! i) = PHOTO"
    by (simp add: item)
  show "textureUrl (fst (generateOrnaments n rnd k imgs) ! i) = Some (imgs ! i)"
    by (simp add: item photoItem_def Let_def)
  show "- (35 / 100) * TREE_HEIGHT < vec_y (positionTree (fst (generateOrnaments n rnd k imgs) ! i))"
    unfolding item using i by (rule photoItem_band)
  show "vec_y (positionTree (fst (generateOrnaments n rnd k imgs) ! i)) < 35 / 100 * TREE_HEIGHT"
    unfolding item using i by (rule photoItem_band)
next
  fix i assume "i < n"
  then show "orn_type (fst (generateOrnaments n rnd k imgs) ! (length imgs + i)) \<noteq> PHOTO"
    by (simp add: generateOrnaments_gem)
qed (simp_all add: generateOrnaments_length generateOrnaments_photo_count ornaments_def)

theorem generateOrnaments_counts_and_band_witness:
  "length (fst (generateOrnaments 2 (\<lambda>_. 0) 0 [''a.png'', ''b.png''])) = 4
   \<and> length (filter (\<lambda>orn. orn_type orn = PHOTO)
         (fst (generateOrnaments 2 (\<lambda>_. 0) 0 [''a.png'', ''b.png'']))) = 2
   \<and> (1::nat) < length [''a.png'', ''b.png'']
   \<and> orn_type (fst (generateOrnaments 2 (\<lambda>_. 0) 0 [''a.png'', ''b.png'']) ! 1) = PHOTO
   \<and> vec_y (positionTree (fst (generateOrnaments 2 (\<lambda>_. 0) 0 [''a.png'', ''b.png'']) ! 1)) = 7 / 4
   \<and> - (35 / 100) * TREE_HEIGHT < 7 / 4 \<and> 7 / 4 < 35 / 100 * TREE_HEIGHT
   \<and> orn_type (fst (generateOrnaments 2 (\<lambda>_. 0) 0 [''a.png'', ''b.png'']) ! 3) \<noteq> PHOTO"
proof -
  let ?items = "fst (generateOrnaments 2 (\<lambda>_. 0) 0 [''a.png'', ''b.png''])"
  have y: "vec_y (positionTree (?items ! 1)) = 7 / 4"
    by (simp add: generateOrnaments_photo photoItem_height TREE_HEIGHT_def)
  note all = generateOrnaments_counts_and_band [of 2 "\<lambda>_. 0" 0 "[''a.png'', ''b.png'']"]
  from all have len: "length ?items = 4"
    by simp
  from all have cnt: "length (filter (\<lambda>orn. orn_type orn = PHOTO) ?items) = 2"
    by simp
  from all have "\<forall>i. i < length [''a.png'', ''b.png''] \<longrightarrow> orn_type (?items ! i) = PHOTO"
    by blast
  then have photo: "orn_type (?items ! 1) = PHOTO"
    by simp
  from all have "\<forall>i<2. orn_type (?items ! (length [''a.png'', ''b.png''] + i)) \<noteq> PHOTO"
    by blast
  then have "orn_type (?items ! (length [''a.png'', ''b.png''] + 1)) \<noteq> PHOTO"
    by simp
  then have gem: "orn_type (?items ! 3) \<noteq> PHOTO"
    by (simp add: numeral_3_eq_3)
  from len cnt photo gem y show ?thesis
    by (simp add: TREE_HEIGHT_def)
qed

text \<open>
  C3 as stated fails: with the same (empty) photo list, two runs of the generator whose
  first random draws are 0 and 11/30 place decoration 0 at different tree-layout
  positions, since the radial distance is scaled by the square root of a draw.
\<close>

theorem decoration_position_counterexample:
  "positionTree (fst (ornaments (\<lambda>_. 0) 0 []) ! 0)
     \<noteq> positionTree (fst (ornaments (\<lambda>_. 11 / 30) 0 []) ! 0)"
proof -
  have "vec_x (positionTree (fst (ornaments (\<lambda>_. 0) 0 []) ! 0))
      \<noteq> vec_x (positionTree (fst (ornaments (\<lambda>_. 11 / 30) 0 []) ! 0))"
    using generateOrnaments_gem [of 0 ORNAMENT_COUNT "\<lambda>_. 0" 0 "[]"]
          generateOrnaments_gem [of 0 ORNAMENT_COUNT "\<lambda>_. 11 / 30" 0 "[]"]
    by (simp add: ornaments_def ORNAMENT_COUNT_def gemItem_positionTree TREE_HEIGHT_def
          TREE_RADIUS_BASE_def)
  then show ?thesis by auto
qed

text \<open>
  C3, amended: in the tree layout, decoration \<open>i\<close> of \<open>n\<close> lies at height
  \<open>i / n * TREE_HEIGHT - TREE_HEIGHT / 2\<close> and at spiral angle \<open>i * goldenAngle\<close>,
  both functions of the index and the constants alone, so its height is the same in any
  two runs with the same photo list; its radial distance is the cone radius at that
  height times the square root of \<open>0.7 + 0.3 * u\<close> for a random draw \<open>u\<close> of
  the run, so the x and z coordinates depend on the run's randomness.
\<close>

theorem decoration_placement:
  assumes "i < n"
  shows "positionTree (fst (generateOrnaments n rnd k imgs) ! (length imgs + i)) =
     \<lparr>vec_x = cos (real i * goldenAngle) *
               ((TREE_HEIGHT / 2 - (real i / real n * TREE_HEIGHT - TREE_HEIGHT / 2)) / TREE_HEIGHT
                  * TREE_RADIUS_BASE * sqrt (rnd (k + 3 * length imgs + 10 * i) * (3 / 10) + 7 / 10)),
      vec_y = real i / real n * TREE_HEIGHT - TREE_HEIGHT / 2,
      vec_z = sin (real i * goldenAngle) *
               ((TREE_HEIGHT / 2 - (real i / real n * TREE_HEIGHT - TREE_HEIGHT / 2)) / TREE_HEIGHT
                  * TREE_RADIUS_BASE * sqrt (rnd (k + 3 * length imgs + 10 * i) * (3 / 10) + 7 / 10))\<rparr>
   \<and> vec_y (positionTree (fst (generateOrnaments n rnd k imgs) ! (length imgs + i)))
       = vec_y (positionTree (fst (generateOrnaments n rnd' k' imgs) ! (length imgs + i)))
   \<and> ornaments rnd k imgs = generateOrnaments ORNAMENT_COUNT rnd k imgs"
  using assms by (simp add: generateOrnaments_gem gemItem_positionTree ornaments_def)

theorem decoration_placement_witness:
  "(1::nat) < 2
   \<and> vec_y (positionTree (fst (generateOrnaments 2 (\<lambda>_. 0) 0 []) ! 1)) = 0
   \<and> vec_y (positionTree (fst (generateOrnaments 2 (\<lambda>_. 11 / 30) 5 []) ! 1)) = 0
   \<and> vec_x (positionTree (fst (generateOrnaments 2 (\<lambda>_. 11 / 30) 5 []) ! 1))
        = cos goldenAngle * (117 / 40)"
proof -
  have s: "sqrt (81 / 100) = 9 / 10"
    by (rule real_sqrt_unique) (simp_all add: power2_eq_square)
  from decoration_placement [of 1 2 "\<lambda>_. 0" 0 "[]" "\<lambda>_. 11 / 30" 5]
       decoration_placement [of 1 2 "\<lambda>_. 11 / 30" 5 "[]" "\<lambda>_. 0" 0]
  show ?thesis
    by (simp add: TREE_HEIGHT_def TREE_RADIUS_BASE_def s)
qed

section \<open>Properties of binary64 rounding and of the interpolation step\<close>

lemma round_half_even_error: "\<bar>of_int (round_half_even q) - q\<bar> \<le> 1 / 2"
  unfolding round_half_even_def Let_def by (auto simp: abs_if) linarith+

lemma round_half_even_of_int [simp]: "round_half_even (of_int k) = k"
  by (simp add: round_half_even_def)






lemma two_powr_powi: "(2::real) powr of_int k = 2 powi k"
  by (simp add: powr_real_of_int power_int_def power_one_over inverse_eq_divide)

lemma binade:
  assumes "y \<noteq> 0"
  shows "2 powi \<lfloor>log 2 \<bar>y\<bar>\<rfloor> \<le> \<bar>y\<bar>" and "\<bar>y\<bar> < 2 powi (\<lfloor>log 2 \<bar>y\<bar>\<rfloor> + 1)"
proof -
  from assms have pos: "0 < \<bar>y\<bar>" by simp
  have "2 powr of_int \<lfloor>log 2 \<bar>y\<bar>\<rfloor> \<le> \<bar>y\<bar> \<and> \<bar>y\<bar> < 2 powr of_int (\<lfloor>log 2 \<bar>y\<bar>\<rfloor> + 1)"
    using floor_log_eq_powr_iff [OF pos, of 2 "\<lfloor>log 2 \<bar>y\<bar>\<rfloor>"] by simp
  then show "2 powi \<lfloor>log 2 \<bar>y\<bar>\<rfloor> \<le> \<bar>y\<bar>" and "\<bar>y\<bar> < 2 powi (\<lfloor>log 2 \<bar>y\<bar>\<rfloor> + 1)"
    by (simp_all only: two_powr_powi)
qed


lemma binary64_exponent_upper:
  assumes "y \<noteq> 0"
  shows "\<bar>y\<bar> < 2 powi (binary64_exponent y + 1)"
proof -
  have "\<lfloor>log 2 \<bar>y\<bar>\<rfloor> + 1 \<le> binary64_exponent y + 1"
    by (simp add: binary64_exponent_def)
  then have "(2::real) powi (\<lfloor>log 2 \<bar>y\<bar>\<rfloor> + 1) \<le> 2 powi (binary64_exponent y + 1)"
    by (intro power_int_increasing) simp_all
  with binade(2) [OF assms] show ?thesis by linarith
qed

lemma binary64_exponent_cases:
  "(binary64_exponent y = \<lfloor>log 2 \<bar>y\<bar>\<rfloor> \<and> - 1022 \<le> \<lfloor>log 2 \<bar>y\<bar>\<rfloor>)
     \<or> (binary64_exponent y = - 1022 \<and> \<lfloor>log 2 \<bar>y\<bar>\<rfloor> < - 1022)"
  unfolding binary64_exponent_def by linarith

lemma binary64_exponent_ge: "- 1022 \<le> binary64_exponent y"
  by (simp add: binary64_exponent_def)


lemma binary64_ulp_pos [simp]: "0 < binary64_ulp y"
  by (simp add: binary64_ulp_def)

lemma binary64_0 [simp]: "binary64 0 = 0"
  by (simp add: binary64_def)


lemma binary64_unfold:
  assumes "y \<noteq> 0"
  shows "binary64 y = of_int (round_half_even (y / binary64_ulp y)) * binary64_ulp y"
  using assms by (simp add: binary64_def)









lemma powi_nonneg_exponent:
  assumes "0 \<le> n"
  shows "(2::real) powi n = of_int (2 ^ nat n)"
  using assms by (simp add: power_int_def)

lemma powi_split:
  "(2::real) powi a = 2 powi (a - b) * 2 powi b"
  using power_int_add [of "2::real" "a - b" b] by simp

lemma powi_le_imp_le:
  assumes "(2::real) powi a \<le> 2 powi b"
  shows "a \<le> b"
proof (rule ccontr)
  assume "\<not> a \<le> b"
  then have "b < a" by simp
  then have "(2::real) powi b < 2 powi a"
    by (intro power_int_strict_increasing) simp_all
  with assms show False by simp
qed

lemma powi_less_imp_less:
  assumes "(2::real) powi a < 2 powi b"
  shows "a < b"
proof (rule ccontr)
  assume "\<not> a < b"
  then have "b \<le> a" by simp
  then have "(2::real) powi b \<le> 2 powi a"
    by (intro power_int_increasing) simp_all
  with assms show False by simp
qed

lemma binary64_on_grid:
  assumes "binary64_exponent y - 52 \<le> j" and that: "y = of_int m * 2 powi j"
  shows "binary64 (of_int m * 2 powi j) = of_int m * 2 powi j"
proof (cases "y = 0")
  case True
  with that show ?thesis by simp
next
  case False
  define n where "n = j - (binary64_exponent y - 52)"
  define u where "u = binary64_ulp y"
  have u: "0 < u" by (simp add: u_def)
  have n: "0 \<le> n" using assms(1) by (simp add: n_def)
  have "(2::real) powi j = 2 powi n * u"
    unfolding n_def u_def binary64_ulp_def by (rule powi_split)
  then have eq: "y = of_int (m * 2 ^ nat n) * u"
    using that by (simp add: powi_nonneg_exponent [OF n])
  then have "y / u = of_int (m * 2 ^ nat n)"
    using u by (simp add: field_simps)
  then have "of_int (round_half_even (y / u)) * u = of_int (m * 2 ^ nat n) * u"
    by (simp only: round_half_even_of_int)
  then have "binary64 y = of_int (m * 2 ^ nat n) * u"
    by (simp only: binary64_unfold [OF False] u_def)
  with eq have "binary64 y = y" by simp
  with that show ?thesis by simp
qed

lemma binary64_exact:
  assumes "\<bar>m\<bar> < 2 ^ 53" "- 1074 \<le> j"
  shows "binary64 (of_int m * 2 powi j) = of_int m * 2 powi j"
proof (cases "m = 0")
  case True
  then show ?thesis by simp
next
  case False
  define y :: real where "y = of_int m * 2 powi j"
  have ynz: "y \<noteq> 0" using False by (simp add: y_def)
  have absy: "\<bar>y\<bar> = of_int \<bar>m\<bar> * 2 powi j"
    by (simp add: y_def abs_mult)
  have "of_int \<bar>m\<bar> < (2 ^ 53 :: real)"
    using assms(1) by (metis of_int_less_iff of_int_numeral of_int_power)
  then have "\<bar>y\<bar> < 2 ^ 53 * 2 powi j"
    unfolding absy by (intro mult_strict_right_mono) simp_all
  also have "(2 ^ 53 :: real) * 2 powi j = 2 powi (53 + j)"
    using power_int_add [of "2::real" 53 j] by simp
  finally have upper: "\<bar>y\<bar> < 2 powi (53 + j)" .
  have "binary64_exponent y - 52 \<le> j"
  proof -
    from binary64_exponent_cases [of y] show ?thesis
    proof
      assume a: "binary64_exponent y = \<lfloor>log 2 \<bar>y\<bar>\<rfloor> \<and> - 1022 \<le> \<lfloor>log 2 \<bar>y\<bar>\<rfloor>"
      from binade(1) [OF ynz] upper have "(2::real) powi \<lfloor>log 2 \<bar>y\<bar>\<rfloor> < 2 powi (53 + j)"
        by linarith
      then have "\<lfloor>log 2 \<bar>y\<bar>\<rfloor> < 53 + j" by (rule powi_less_imp_less)
      with a show ?thesis by simp
    next
      assume "binary64_exponent y = - 1022 \<and> \<lfloor>log 2 \<bar>y\<bar>\<rfloor> < - 1022"
      with assms(2) show ?thesis by simp
    qed
  qed
  then show ?thesis
    by (rule binary64_on_grid) (simp add: y_def)
qed


lemma binary64_quotient_bound:
  assumes "y \<noteq> 0"
  shows "\<bar>y / binary64_ulp y\<bar> < 2 ^ 53"
proof -
  have "(2::real) powi (binary64_exponent y + 1) = 2 powi 53 * binary64_ulp y"
    unfolding binary64_ulp_def using powi_split [of "binary64_exponent y + 1" "binary64_exponent y - 52"]
    by simp
  with binary64_exponent_upper [OF assms] have "\<bar>y\<bar> < 2 ^ 53 * binary64_ulp y"
    by simp
  then have "\<bar>y\<bar> / binary64_ulp y < 2 ^ 53"
    by (simp add: field_simps)
  moreover have "\<bar>binary64_ulp y\<bar> = binary64_ulp y"
    by (simp add: less_imp_le)
  ultimately show ?thesis
    by (simp add: abs_divide)
qed

lemma binary64_idem: "binary64 (binary64 y) = binary64 y"
proof (cases "y = 0")
  case True
  then show ?thesis by simp
next
  case False
  define k where "k = round_half_even (y / binary64_ulp y)"
  define j where "j = binary64_exponent y - 52"
  have b: "binary64 y = of_int k * 2 powi j"
    by (simp only: binary64_unfold [OF False] k_def j_def binary64_ulp_def)
  have j: "- 1074 \<le> j"
    using binary64_exponent_ge [of y] by (simp add: j_def)
  have "\<bar>of_int k - y / binary64_ulp y\<bar> \<le> 1 / 2"
    unfolding k_def by (rule round_half_even_error)
  with binary64_quotient_bound [OF False] have "\<bar>of_int k :: real\<bar> < 2 ^ 53 + 1"
    by linarith
  then have "\<bar>k\<bar> < 2 ^ 53 + 1"
    by (metis (mono_tags) of_int_abs of_int_less_iff of_int_numeral of_int_power of_int_add of_int_1)
  then have k: "\<bar>k\<bar> \<le> 2 ^ 53" by simp
  show ?thesis
  proof (cases "\<bar>k\<bar> < 2 ^ 53")
    case True
    then show ?thesis unfolding b using j by (rule binary64_exact)
  next
    case False
    with k have "\<bar>k\<bar> = 2 ^ 53" by simp
    then have "k = 2 * 2 ^ 52 \<or> k = 2 * (- (2 ^ 52))" by (auto simp: abs_if split: if_splits)
    then obtain h :: int where h: "k = 2 * h" "\<bar>h\<bar> < 2 ^ 53" by auto
    have "(2::real) powi (j + 1) = 2 * 2 powi j"
      using power_int_add [of "2::real" 1 j] by (simp add: add.commute)
    then have "of_int k * 2 powi j = (of_int h :: real) * 2 powi (j + 1)"
      by (simp add: h(1))
    moreover have "binary64 (of_int h * 2 powi (j + 1)) = of_int h * 2 powi (j + 1)"
      using h(2) j by (intro binary64_exact) simp_all
    ultimately show ?thesis unfolding b by simp
  qed
qed

lemma is_binary64_binary64 [simp]: "is_binary64 (binary64 y)"
  by (simp add: is_binary64_def binary64_idem)








lemma is_binary64_lerp1 [simp]: "is_binary64 (lerp1 x v alpha)"
  by (simp add: lerp1_def)












section \<open>Properties of the animation driver\<close>



lemma Vector3_lerp_coords [simp]:
  "vec_x (Vector3_lerp p t alpha) = lerp1 (vec_x p) (vec_x t) alpha"
  "vec_y (Vector3_lerp p t alpha) = lerp1 (vec_y p) (vec_y t) alpha"
  "vec_z (Vector3_lerp p t alpha) = lerp1 (vec_z p) (vec_z t) alpha"
  by (simp_all add: Vector3_lerp_def)

















lemma is_binary64_0 [simp]: "is_binary64 0"
  by (simp add: is_binary64_def)


lemma stateLogic_TREE:
  "stateLogic TREE fIndex env i data child =
     (Ref_positionTree, \<lparr>vec_x = scale data, vec_y = scale data, vec_z = scale data\<rparr>, data, child)"
  by (simp add: stateLogic_def)

lemma stateLogic_SCATTER:
  "stateLogic SCATTER fIndex env i data child =
     (Ref_positionScatter, \<lparr>vec_x = scale data, vec_y = scale data, vec_z = scale data\<rparr>,
      data\<lparr>positionScatter := (positionScatter data)
              \<lparr>vec_y := vec_y (positionScatter data) + floatOffset env data\<rparr>\<rparr>,
      child)"
  by (simp add: stateLogic_def floatOffset_def)

lemma stateLogic_FOCUS_plain:
  assumes "orn_type data \<noteq> PHOTO \<or> fIndex \<noteq> Some (int i)"
  shows "stateLogic FOCUS fIndex env i data child =
     (Ref_positionScatter, \<lparr>vec_x = scale data, vec_y = scale data, vec_z = scale data\<rparr>, data, child)"
  using assms by (auto simp: stateLogic_def)

lemma stateLogic_data_unless_SCATTER:
  assumes "m \<noteq> SCATTER"
  shows "fst (snd (snd (stateLogic m fIndex env i data child))) = data"
  using assms by (cases m) (simp_all add: stateLogic_def Let_def)

lemma stateLogic_positionTree:
  "positionTree (fst (snd (snd (stateLogic m fIndex env i data child)))) = positionTree data"
  by (cases m) (simp_all add: stateLogic_def Let_def)

lemma processChild_data:
  "fst (processChild m fIndex env delta i data child)
     = fst (snd (snd (stateLogic m fIndex env i data child)))"
  by (simp add: processChild_def Let_def split: prod.split)

lemma forEachChild_snd_Cons:
  "snd (forEachChild m fIndex env delta i (child # rest) orns) =
     (case js_nth orns i of
        None \<Rightarrow> snd (forEachChild m fIndex env delta (i + 1) rest orns)
      | Some data \<Rightarrow>
          snd (forEachChild m fIndex env delta (i + 1) rest
                 (orns[i := fst (processChild m fIndex env delta i data child)])))"
  by (simp add: Let_def case_prod_beta split: option.split)

lemma forEachChild_length:
  "length (snd (forEachChild m fIndex env delta i cs orns)) = length orns"
proof (induction cs arbitrary: i orns)
  case Nil
  show ?case by simp
next
  case (Cons child rest)
  show ?case
    unfolding forEachChild_snd_Cons by (simp add: Cons.IH split: option.split)
qed

lemma forEachChild_nth:
  assumes "j < length orns"
  shows "snd (forEachChild m fIndex env delta i cs orns) ! j =
           (if i \<le> j \<and> j < i + length cs
            then fst (processChild m fIndex env delta j (orns ! j) (cs ! (j - i)))
            else orns ! j)"
  using assms
proof (induction cs arbitrary: i orns)
  case Nil
  show ?case by auto
next
  case (Cons child rest)
  show ?case
  proof (cases "i < length orns")
    case False
    then have "js_nth orns i = None" by (simp add: js_nth_def)
    moreover from False Cons.prems have "\<not> i \<le> j" "\<not> i + 1 \<le> j" by simp_all
    ultimately show ?thesis
      unfolding forEachChild_snd_Cons using Cons.IH [OF Cons.prems, of "i + 1"]
      by simp
  next
    case True
    then have nth: "js_nth orns i = Some (orns ! i)" by (simp add: js_nth_def)
    define data' where "data' = fst (processChild m fIndex env delta i (orns ! i) child)"
    have step: "snd (forEachChild m fIndex env delta i (child # rest) orns)
        = snd (forEachChild m fIndex env delta (i + 1) rest (orns[i := data']))"
      unfolding forEachChild_snd_Cons by (simp add: nth data'_def)
    have len: "j < length (orns[i := data'])" using Cons.prems by simp
    show ?thesis
    proof (cases "j = i")
      case True
      then show ?thesis
        unfolding step using Cons.IH [OF len, of "i + 1"] Cons.prems by (simp add: data'_def)
    next
      case False
      then show ?thesis
        unfolding step using Cons.IH [OF len, of "i + 1"] Cons.prems
        by (auto simp: nth_Cons' Suc_diff_le)
    qed
  qed
qed

lemma useFrame_ornaments:
  assumes "groupRef st = Some g"
  shows "ornamentsMemo (useFrame env delta props st)
     = snd (forEachChild (mode props) (focusedIndex st) env delta 0 (children g) (ornamentsMemo st))"
  using assms by (simp add: useFrame_def Let_def case_prod_beta)

lemma useFrame_ornaments_nth:
  assumes "groupRef st = Some g" "j < length (ornamentsMemo st)"
  shows "ornamentsMemo (useFrame env delta props st) ! j =
           (if j < length (children g)
            then fst (processChild (mode props) (focusedIndex st) env delta j
                        (ornamentsMemo st ! j) (children g ! j))
            else ornamentsMemo st ! j)"
  unfolding useFrame_ornaments [OF assms(1)]
  using forEachChild_nth [OF assms(2), of "mode props" "focusedIndex st" env delta 0 "children g"]
  by simp

lemma useFrame_focusedIndex: "focusedIndex (useFrame env delta props st) = focusedIndex st"
  by (simp add: useFrame_def Let_def case_prod_beta split: option.split)


lemma forEachChild_fst_length:
  "length (fst (forEachChild m fIndex env delta i cs orns)) = length cs"
  by (induction cs arbitrary: i orns) (simp_all add: Let_def case_prod_beta split: option.split)

lemma useFrame_children_length:
  assumes "groupRef st = Some g"
  shows "\<exists>g'. groupRef (useFrame env delta props st) = Some g' \<and> length (children g') = length (children g)"
  using assms by (simp add: useFrame_def Let_def case_prod_beta forEachChild_fst_length)

lemma useFrame_ornaments_length:
  "length (ornamentsMemo (useFrame env delta props st)) = length (ornamentsMemo st)"
  by (simp add: useFrame_def Let_def case_prod_beta forEachChild_length split: option.split)

lemma forEachChild_fst_nth:
  assumes "j < length cs"
  shows "fst (forEachChild m fIndex env delta i cs orns) ! j =
           (if i + j < length orns
            then snd (processChild m fIndex env delta (i + j) (orns ! (i + j)) (cs ! j))
            else cs ! j)"
  using assms
proof (induction cs arbitrary: i orns j)
  case Nil
  then show ?case by simp
next
  case (Cons child rest)
  show ?case
  proof (cases j)
    case 0
    then show ?thesis
      by (simp add: js_nth_def Let_def case_prod_beta)
  next
    case (Suc j')
    with Cons.prems have j': "j' < length rest" by simp
    show ?thesis
      using Cons.IH [OF j', of "i + 1"] Suc
      by (simp add: js_nth_def Let_def case_prod_beta)
  qed
qed

lemma sceneChildren_useFrame_length:
  "length (sceneChildren (useFrame env delta props st)) = length (sceneChildren st)"
  by (simp add: sceneChildren_def useFrame_def Let_def case_prod_beta forEachChild_fst_length
        split: option.split)

lemma sceneChildren_useFrame:
  assumes "groupRef st = Some g"
  shows "sceneChildren (useFrame env delta props st)
     = fst (forEachChild (mode props) (focusedIndex st) env delta 0 (children g) (ornamentsMemo st))"
  using assms by (simp add: sceneChildren_def useFrame_def Let_def case_prod_beta)

lemma sceneChildren_useFrame_nth:
  assumes "j < length (sceneChildren st)" "j < length (ornamentsMemo st)"
  shows "sceneChildren (useFrame env delta props st) ! j =
           snd (processChild (mode props) (focusedIndex st) env delta j
                  (ornamentsMemo st ! j) (sceneChildren st ! j))"
proof (cases "groupRef st")
  case None
  with assms(1) show ?thesis by (simp add: sceneChildren_def)
next
  case (Some g)
  with assms(1) have j: "j < length (children g)" by (simp add: sceneChildren_def)
  have cs: "sceneChildren st = children g"
    by (simp add: sceneChildren_def Some)
  show ?thesis
    unfolding sceneChildren_useFrame [OF Some] cs forEachChild_fst_nth [OF j]
    using assms(2) by simp
qed



lemma processChild_SCATTER_positionScatter:
  "positionScatter (fst (processChild SCATTER fIndex env delta i data child))
     = (positionScatter data)\<lparr>vec_y := vec_y (positionScatter data) + floatOffset env data\<rparr>"
  by (simp add: processChild_data stateLogic_SCATTER)

lemma mountedScene_demo:
  "ornamentsMemo (mountedScene rnd (demo_props m)) = fst (ornaments rnd 0 [])"
  "groupRef (mountedScene rnd (demo_props m))
     = Some \<lparr>grp_rotation_y = 0, children = map mountedChild (fst (ornaments rnd 0 []))\<rparr>"
  "focusedIndex (mountedScene rnd (demo_props m)) = Some 0"
  by (simp_all add: mountedScene_def renderTreeScene_def useMemo_ornaments_def
        commitTreeScene_def commitChildren_def useEffect_focus_def TreeScene_initial_def
        demo_props_def focusEffect_def Let_def case_prod_beta)

lemma ornaments_demo_length: "length (fst (ornaments rnd 0 [])) = 350"
  by (simp add: ornaments_def generateOrnaments_length ORNAMENT_COUNT_def)

lemma ornaments_demo_0:
  "positionScatter (fst (ornaments (\<lambda>_. 1 / 2) 0 []) ! 0) = \<lparr>vec_x = 0, vec_y = 0, vec_z = 0\<rparr>"
  using generateOrnaments_gem [of 0 ORNAMENT_COUNT "\<lambda>_. 1 / 2" 0 "[]"]
  by (simp add: ornaments_def ORNAMENT_COUNT_def gemItem_def Let_def)

lemma floatOffset_demo:
  "vec_x (positionScatter data) = 0 \<Longrightarrow> floatOffset (demo_env pi) data = 1 / 20"
  by (simp add: floatOffset_def demo_env_def)

text \<open>
  C1 fails on the code: in SCATTER mode \<open>targetPos\<close> is the stored
  \<open>positionScatter\<close> vector itself, not a copy, so \<open>targetPos.y += ...\<close> writes into
  it. Here a scene with no photos, whose decoration 0 has the scattered position
  (0, 0, 0), is run for two frames at elapsed time \<open>pi\<close>: the stored vector is
  (0, 1/20, 0) after the first frame and (0, 1/10, 0) after the second.
\<close>

theorem useFrame_scatter_mutates_base:
  "positionScatter (ornamentsMemo (mountedScene (\<lambda>_. 1 / 2) (demo_props SCATTER)) ! 0)
     = \<lparr>vec_x = 0, vec_y = 0, vec_z = 0\<rparr>
   \<and> positionScatter
         (ornamentsMemo (useFrame (demo_env pi) (1 / 60) (demo_props SCATTER)
            (mountedScene (\<lambda>_. 1 / 2) (demo_props SCATTER))) ! 0)
       = \<lparr>vec_x = 0, vec_y = 1 / 20, vec_z = 0\<rparr>
   \<and> positionScatter
         (ornamentsMemo (useFrame (demo_env pi) (1 / 60) (demo_props SCATTER)
            (useFrame (demo_env pi) (1 / 60) (demo_props SCATTER)
               (mountedScene (\<lambda>_. 1 / 2) (demo_props SCATTER)))) ! 0)
       = \<lparr>vec_x = 0, vec_y = 1 / 10, vec_z = 0\<rparr>"
proof -
  let ?st0 = "mountedScene (\<lambda>_. 1 / 2) (demo_props SCATTER)"
  let ?st1 = "useFrame (demo_env pi) (1 / 60) (demo_props SCATTER) ?st0"
  let ?st2 = "useFrame (demo_env pi) (1 / 60) (demo_props SCATTER) ?st1"
  have m: "mode (demo_props SCATTER) = SCATTER" by (simp add: demo_props_def)
  have p0: "positionScatter (ornamentsMemo ?st0 ! 0) = \<lparr>vec_x = 0, vec_y = 0, vec_z = 0\<rparr>"
    by (simp add: mountedScene_demo ornaments_demo_0)
  have g0: "groupRef ?st0 = Some \<lparr>grp_rotation_y = 0,
      children = map mountedChild (fst (ornaments (\<lambda>_. 1 / 2) 0 []))\<rparr>"
    by (rule mountedScene_demo)
  have l0: "0 < length (ornamentsMemo ?st0)"
    by (simp add: mountedScene_demo ornaments_demo_length)
  have p1: "positionScatter (ornamentsMemo ?st1 ! 0) = \<lparr>vec_x = 0, vec_y = 1 / 20, vec_z = 0\<rparr>"
    using useFrame_ornaments_nth [OF g0 l0, of "demo_env pi" "1 / 60" "demo_props SCATTER"]
    by (simp add: m ornaments_demo_length processChild_SCATTER_positionScatter p0 floatOffset_demo)
  obtain g1 where g1: "groupRef ?st1 = Some g1" and c1: "length (children g1) = 350"
    using useFrame_children_length [OF g0, of "demo_env pi" "1 / 60" "demo_props SCATTER"]
    by (auto simp: ornaments_demo_length)
  have l1: "0 < length (ornamentsMemo ?st1)"
    using l0 by (simp add: useFrame_ornaments_length)
  have p2: "positionScatter (ornamentsMemo ?st2 ! 0) = \<lparr>vec_x = 0, vec_y = 1 / 10, vec_z = 0\<rparr>"
    using useFrame_ornaments_nth [OF g1 l1, of "demo_env pi" "1 / 60" "demo_props SCATTER"]
    by (simp add: m c1 processChild_SCATTER_positionScatter p1 floatOffset_demo)
  from p0 p1 p2 show ?thesis by simp
qed


lemma generateOrnaments_no_photos:
  assumes "i < length (fst (generateOrnaments n rnd k []))"
  shows "orn_type (fst (generateOrnaments n rnd k []) ! i) \<noteq> PHOTO"
  using assms generateOrnaments_gem [of i n rnd k "[]"]
  by (simp add: generateOrnaments_length)

lemma targetOf_SCATTER:
  "targetOf SCATTER fIndex env i data child =
     ((positionScatter data)\<lparr>vec_y := vec_y (positionScatter data) + floatOffset env data\<rparr>,
      \<lparr>vec_x = scale data, vec_y = scale data, vec_z = scale data\<rparr>)"
  by (simp add: targetOf_def stateLogic_SCATTER)

lemma targetOf_FOCUS_plain:
  assumes "orn_type data \<noteq> PHOTO \<or> fIndex \<noteq> Some (int i)"
  shows "targetOf FOCUS fIndex env i data child =
     (positionScatter data, \<lparr>vec_x = scale data, vec_y = scale data, vec_z = scale data\<rparr>)"
  by (simp add: targetOf_def stateLogic_FOCUS_plain [OF assms])

text \<open>
  C7 as stated fails: with no photos, at elapsed time \<open>pi\<close> the target position of
  decoration 0 in FOCUS mode is its scattered position (0, 0, 0), while in SCATTER mode
  it is (0, 1/20, 0): SCATTER adds the floating term, FOCUS does not.
\<close>

theorem focus_without_photos_counterexample:
  "fst (targetOf FOCUS (Some 0) (demo_env pi) 0 (fst (ornaments (\<lambda>_. 1 / 2) 0 []) ! 0)
          (mountedChild (fst (ornaments (\<lambda>_. 1 / 2) 0 []) ! 0)))
     \<noteq> fst (targetOf SCATTER (Some 0) (demo_env pi) 0 (fst (ornaments (\<lambda>_. 1 / 2) 0 []) ! 0)
          (mountedChild (fst (ornaments (\<lambda>_. 1 / 2) 0 []) ! 0)))"
proof -
  let ?data = "fst (ornaments (\<lambda>_. 1 / 2) 0 []) ! 0"
  have "orn_type ?data \<noteq> PHOTO"
    using generateOrnaments_no_photos [of 0 ORNAMENT_COUNT "\<lambda>_. 1 / 2" 0]
    by (simp add: ornaments_def generateOrnaments_length ORNAMENT_COUNT_def)
  then have "fst (targetOf FOCUS (Some 0) (demo_env pi) 0 ?data (mountedChild ?data))
      = \<lparr>vec_x = 0, vec_y = 0, vec_z = 0\<rparr>"
    by (simp add: targetOf_FOCUS_plain ornaments_demo_0)
  moreover have "fst (targetOf SCATTER (Some 0) (demo_env pi) 0 ?data (mountedChild ?data))
      = \<lparr>vec_x = 0, vec_y = 1 / 20, vec_z = 0\<rparr>"
    by (simp add: targetOf_SCATTER ornaments_demo_0 floatOffset_demo)
  ultimately show ?thesis by simp
qed

text \<open>
  What a frame does leave alone: \<open>positionTree\<close> in every mode, and the whole
  ornament list in the modes TREE and FOCUS.
\<close>

lemma useFrame_positionTree:
  assumes "j < length (ornamentsMemo st)"
  shows "positionTree (ornamentsMemo (useFrame env delta props st) ! j)
           = positionTree (ornamentsMemo st ! j)"
proof (cases "groupRef st")
  case None
  then show ?thesis by (simp add: useFrame_def)
next
  case (Some g)
  show ?thesis
    unfolding useFrame_ornaments_nth [OF Some assms]
    by (simp add: processChild_data stateLogic_positionTree)
qed

lemma useFrame_ornaments_unless_SCATTER:
  assumes "mode props \<noteq> SCATTER"
  shows "ornamentsMemo (useFrame env delta props st) = ornamentsMemo st"
proof (cases "groupRef st")
  case None
  then show ?thesis by (simp add: useFrame_def)
next
  case (Some g)
  show ?thesis
  proof (rule nth_equalityI)
    show "length (ornamentsMemo (useFrame env delta props st)) = length (ornamentsMemo st)"
      by (rule useFrame_ornaments_length)
  next
    fix j assume "j < length (ornamentsMemo (useFrame env delta props st))"
    then have j: "j < length (ornamentsMemo st)"
      by (simp add: useFrame_ornaments_length)
    show "ornamentsMemo (useFrame env delta props st) ! j = ornamentsMemo st ! j"
      unfolding useFrame_ornaments_nth [OF Some j]
      by (simp add: processChild_data stateLogic_data_unless_SCATTER [OF assms])
  qed
qed


lemma sceneChildren_mountedScene_demo:
  "sceneChildren (mountedScene rnd (demo_props m)) = map mountedChild (fst (ornaments rnd 0 []))"
  by (simp add: sceneChildren_def mountedScene_demo)




lemma commitTreeScene_keeps:
  "focusedIndex (commitTreeScene props before st) = focusedIndex st"
  "effectDeps (commitTreeScene props before st) = effectDeps st"
  "ornamentsMemo (commitTreeScene props before st) = ornamentsMemo st"
  "randomCalls (commitTreeScene props before st) = randomCalls st"
  "memoDeps (commitTreeScene props before st) = memoDeps st"
  by (simp_all add: commitTreeScene_def)

lemma focusEffect_groupRef:
  "focusedIndex (focusEffect rnd props (commitTreeScene props before st))
     = focusedIndex (focusEffect rnd props st)"
  by (simp add: focusEffect_def commitTreeScene_def Let_def)

lemma mountedScene_deps:
  "effectDeps (mountedScene rnd (demo_props m)) = Some (m, 0)"
  "memoDeps (mountedScene rnd (demo_props m)) = Some 0"
  by (simp_all add: mountedScene_def renderTreeScene_def useMemo_ornaments_def
        commitTreeScene_def useEffect_focus_def TreeScene_initial_def demo_props_def
        focusEffect_def Let_def case_prod_beta)

lemma processChild_orn_type:
  "orn_type (fst (processChild m fIndex env delta i data child)) = orn_type data"
proof (cases "m = SCATTER")
  case True
  then show ?thesis by (simp add: processChild_data stateLogic_SCATTER)
next
  case False
  then show ?thesis by (simp add: processChild_data stateLogic_data_unless_SCATTER)
qed

lemma useFrame_orn_type:
  assumes "j < length (ornamentsMemo st)"
  shows "orn_type (ornamentsMemo (useFrame env delta props st) ! j) = orn_type (ornamentsMemo st ! j)"
proof (cases "groupRef st")
  case None
  then show ?thesis by (simp add: useFrame_def)
next
  case (Some g)
  show ?thesis
    unfolding useFrame_ornaments_nth [OF Some assms] by (simp add: processChild_orn_type)
qed

lemma useFrame_no_photos:
  assumes "list_all (\<lambda>orn. orn_type orn \<noteq> PHOTO) (ornamentsMemo st)"
  shows "list_all (\<lambda>orn. orn_type orn \<noteq> PHOTO) (ornamentsMemo (useFrame env delta props st))"
  using assms by (simp add: list_all_length useFrame_ornaments_length useFrame_orn_type)

lemma generateOrnaments_no_photos_all:
  "list_all (\<lambda>orn. orn_type orn \<noteq> PHOTO) (fst (generateOrnaments n rnd k []))"
  by (simp add: list_all_length generateOrnaments_no_photos)

lemma useEffect_focus_keeps:
  "ornamentsMemo (useEffect_focus rnd props st) = ornamentsMemo st"
  "groupRef (useEffect_focus rnd props st) = groupRef st"
  "memoDeps (useEffect_focus rnd props st) = memoDeps st"
  by (simp_all add: useEffect_focus_def focusEffect_def Let_def)

lemma mountedScene_ornaments:
  "ornamentsMemo (mountedScene rnd props) = fst (ornaments rnd 0 (userImages props))"
  by (simp add: mountedScene_def renderTreeScene_def useEffect_focus_keeps commitTreeScene_keeps
        useMemo_ornaments_def TreeScene_initial_def case_prod_beta)

lemma renderTreeScene_memoised:
  assumes "memoDeps st = Some (userImagesRef props)"
  shows "ornamentsMemo (renderTreeScene rnd props st) = ornamentsMemo st"
    and "groupRef (renderTreeScene rnd props st) = groupRef st"
    and "sceneChildren (renderTreeScene rnd props st) = sceneChildren st"
  using assms
  by (simp_all add: renderTreeScene_def useEffect_focus_keeps commitTreeScene_def
        useMemo_ornaments_def sceneChildren_def)

lemma useFrame_memoDeps: "memoDeps (useFrame env delta props st) = memoDeps st"
  by (simp add: useFrame_def Let_def case_prod_beta split: option.split)

lemma processChild_FOCUS_plain:
  assumes "orn_type data \<noteq> PHOTO"
  shows "snd (processChild FOCUS fIndex env delta i data child) =
     child\<lparr>obj_position :=
               Vector3_lerp (obj_position child) (positionScatter data) (binary64 (delta * 4)),
            obj_scale :=
               Vector3_lerp (obj_scale child)
                 \<lparr>vec_x = scale data, vec_y = scale data, vec_z = scale data\<rparr> (binary64 (delta * 4)),
            obj_rotation := (obj_rotation child)
               \<lparr>eul_x := eul_x (obj_rotation child) + delta * (2 / 10),
                eul_y := eul_y (obj_rotation child) + delta * (3 / 10)\<rparr>\<rparr>"
  using assms by (simp add: processChild_def stateLogic_FOCUS_plain lerpFactor_def)

lemma scatter_frame_demo:
  "positionScatter
     (ornamentsMemo (useFrame (demo_env pi) (1 / 60) (demo_props SCATTER)
        (mountedScene (\<lambda>_. 1 / 2) (demo_props SCATTER))) ! 0)
     = \<lparr>vec_x = 0, vec_y = 1 / 20, vec_z = 0\<rparr>"
proof -
  let ?st0 = "mountedScene (\<lambda>_. 1 / 2) (demo_props SCATTER)"
  have m: "mode (demo_props SCATTER) = SCATTER" by (simp add: demo_props_def)
  have p0: "positionScatter (ornamentsMemo ?st0 ! 0) = \<lparr>vec_x = 0, vec_y = 0, vec_z = 0\<rparr>"
    by (simp add: mountedScene_demo ornaments_demo_0)
  have g0: "groupRef ?st0 = Some \<lparr>grp_rotation_y = 0,
      children = map mountedChild (fst (ornaments (\<lambda>_. 1 / 2) 0 []))\<rparr>"
    by (rule mountedScene_demo)
  have l0: "0 < length (ornamentsMemo ?st0)"
    by (simp add: mountedScene_demo ornaments_demo_length)
  show ?thesis
    using useFrame_ornaments_nth [OF g0 l0, of "demo_env pi" "1 / 60" "demo_props SCATTER"]
    by (simp add: m ornaments_demo_length processChild_SCATTER_positionScatter p0 floatOffset_demo)
qed

text \<open>
  C7, amended: when no photo particles exist, each frame in FOCUS mode gives every
  particle as target position its stored scattered position, as the earlier frames have
  left it, without the vertical oscillation that a frame in SCATTER mode adds to that
  vector, and as target scale its base scale, the same target scale as in SCATTER mode;
  no particle is highlighted or camera-locked: the block leaves the child as it is (no
  \<open>lookAt\<close>, no magnified scale, no camera target), and the frame moves every child
  towards that target at rate 4, turns it by the sparkle rotation and leaves the
  ornaments as they are. Frames in any mode keep the scene without photo particles, and
  the first render of a scene without photos has none.
\<close>

theorem focus_without_photos:
  assumes "list_all (\<lambda>orn. orn_type orn \<noteq> PHOTO) (ornamentsMemo st)"
    and "i < length (ornamentsMemo st)"
  shows "stateLogic FOCUS fIndex env i (ornamentsMemo st ! i) child =
           (Ref_positionScatter,
            \<lparr>vec_x = scale (ornamentsMemo st ! i), vec_y = scale (ornamentsMemo st ! i),
             vec_z = scale (ornamentsMemo st ! i)\<rparr>,
            ornamentsMemo st ! i, child)
       \<and> targetOf FOCUS fIndex env i (ornamentsMemo st ! i) child =
           (positionScatter (ornamentsMemo st ! i),
            \<lparr>vec_x = scale (ornamentsMemo st ! i), vec_y = scale (ornamentsMemo st ! i),
             vec_z = scale (ornamentsMemo st ! i)\<rparr>)
       \<and> targetOf SCATTER fIndex env i (ornamentsMemo st ! i) child =
           ((positionScatter (ornamentsMemo st ! i))
              \<lparr>vec_y := vec_y (positionScatter (ornamentsMemo st ! i))
                          + floatOffset env (ornamentsMemo st ! i)\<rparr>,
            \<lparr>vec_x = scale (ornamentsMemo st ! i), vec_y = scale (ornamentsMemo st ! i),
             vec_z = scale (ornamentsMemo st ! i)\<rparr>)
       \<and> snd (targetOf FOCUS fIndex env i (ornamentsMemo st ! i) child)
           = snd (targetOf SCATTER fIndex env i (ornamentsMemo st ! i) child)
       \<and> (mode props = FOCUS \<and> i < length (sceneChildren st) \<longrightarrow>
            sceneChildren (useFrame env delta props st) ! i =
              (sceneChildren st ! i)
                \<lparr>obj_position :=
                   Vector3_lerp (obj_position (sceneChildren st ! i))
                     (positionScatter (ornamentsMemo st ! i)) (binary64 (delta * 4)),
                 obj_scale :=
                   Vector3_lerp (obj_scale (sceneChildren st ! i))
                     \<lparr>vec_x = scale (ornamentsMemo st ! i), vec_y = scale (ornamentsMemo st ! i),
                      vec_z = scale (ornamentsMemo st ! i)\<rparr> (binary64 (delta * 4)),
                 obj_rotation := (obj_rotation (sceneChildren st ! i))
                   \<lparr>eul_x := eul_x (obj_rotation (sceneChildren st ! i)) + delta * (2 / 10),
                    eul_y := eul_y (obj_rotation (sceneChildren st ! i)) + delta * (3 / 10)\<rparr>\<rparr>)
       \<and> (mode props = FOCUS \<longrightarrow> ornamentsMemo (useFrame env delta props st) = ornamentsMemo st)
       \<and> list_all (\<lambda>orn. orn_type orn \<noteq> PHOTO) (ornamentsMemo (useFrame env' delta' props' st))
       \<and> (userImages props0 = [] \<longrightarrow>
            list_all (\<lambda>orn. orn_type orn \<noteq> PHOTO) (ornamentsMemo (mountedScene rnd props0)))"
proof -
  have np: "orn_type (ornamentsMemo st ! i) \<noteq> PHOTO"
    using assms by (simp add: list_all_length)
  have frame: "sceneChildren (useFrame env delta props st) ! i =
      (sceneChildren st ! i)
        \<lparr>obj_position :=
           Vector3_lerp (obj_position (sceneChildren st ! i))
             (positionScatter (ornamentsMemo st ! i)) (binary64 (delta * 4)),
         obj_scale :=
           Vector3_lerp (obj_scale (sceneChildren st ! i))
             \<lparr>vec_x = scale (ornamentsMemo st ! i), vec_y = scale (ornamentsMemo st ! i),
              vec_z = scale (ornamentsMemo st ! i)\<rparr> (binary64 (delta * 4)),
         obj_rotation := (obj_rotation (sceneChildren st ! i))
           \<lparr>eul_x := eul_x (obj_rotation (sceneChildren st ! i)) + delta * (2 / 10),
            eul_y := eul_y (obj_rotation (sceneChildren st ! i)) + delta * (3 / 10)\<rparr>\<rparr>"
    if "mode props = FOCUS" "i < length (sceneChildren st)"
    unfolding sceneChildren_useFrame_nth [OF that(2) assms(2)] that(1)
    by (rule processChild_FOCUS_plain [OF np])
  have keep: "ornamentsMemo (useFrame env delta props st) = ornamentsMemo st" if "mode props = FOCUS"
    using that by (simp add: useFrame_ornaments_unless_SCATTER)
  have inv: "list_all (\<lambda>orn. orn_type orn \<noteq> PHOTO) (ornamentsMemo (useFrame env' delta' props' st))"
    using assms(1) by (rule useFrame_no_photos)
  have first: "list_all (\<lambda>orn. orn_type orn \<noteq> PHOTO) (ornamentsMemo (mountedScene rnd props0))"
    if "userImages props0 = []"
    using that by (simp add: mountedScene_ornaments ornaments_def generateOrnaments_no_photos_all)
  from np frame keep inv first show ?thesis
    by (simp add: stateLogic_FOCUS_plain targetOf_FOCUS_plain targetOf_SCATTER)
qed

theorem focus_without_photos_witness:
  "list_all (\<lambda>orn. orn_type orn \<noteq> PHOTO)
     (ornamentsMemo
        (renderTreeScene (\<lambda>_. 1 / 2) (demo_props FOCUS)
           (useFrame (demo_env pi) (1 / 60) (demo_props SCATTER)
              (mountedScene (\<lambda>_. 1 / 2) (demo_props SCATTER)))))
   \<and> 0 < length
        (ornamentsMemo
           (renderTreeScene (\<lambda>_. 1 / 2) (demo_props FOCUS)
              (useFrame (demo_env pi) (1 / 60) (demo_props SCATTER)
                 (mountedScene (\<lambda>_. 1 / 2) (demo_props SCATTER)))))
   \<and> fst (targetOf FOCUS (Some 0) (demo_env pi) 0
        (ornamentsMemo
           (renderTreeScene (\<lambda>_. 1 / 2) (demo_props FOCUS)
              (useFrame (demo_env pi) (1 / 60) (demo_props SCATTER)
                 (mountedScene (\<lambda>_. 1 / 2) (demo_props SCATTER)))) ! 0)
        (mountedChild (fst (ornaments (\<lambda>_. 1 / 2) 0 []) ! 0)))
       = \<lparr>vec_x = 0, vec_y = 1 / 20, vec_z = 0\<rparr>
   \<and> fst (targetOf SCATTER (Some 0) (demo_env pi) 0
        (ornamentsMemo
           (renderTreeScene (\<lambda>_. 1 / 2) (demo_props FOCUS)
              (useFrame (demo_env pi) (1 / 60) (demo_props SCATTER)
                 (mountedScene (\<lambda>_. 1 / 2) (demo_props SCATTER)))) ! 0)
        (mountedChild (fst (ornaments (\<lambda>_. 1 / 2) 0 []) ! 0)))
       = \<lparr>vec_x = 0, vec_y = 1 / 10, vec_z = 0\<rparr>
   \<and> mode (demo_props FOCUS) = FOCUS
   \<and> 0 < length
        (sceneChildren
           (renderTreeScene (\<lambda>_. 1 / 2) (demo_props FOCUS)
              (useFrame (demo_env pi) (1 / 60) (demo_props SCATTER)
                 (mountedScene (\<lambda>_. 1 / 2) (demo_props SCATTER)))))
   \<and> obj_position
        (sceneChildren
           (useFrame (demo_env pi) (1 / 60) (demo_props FOCUS)
              (renderTreeScene (\<lambda>_. 1 / 2) (demo_props FOCUS)
                 (useFrame (demo_env pi) (1 / 60) (demo_props SCATTER)
                    (mountedScene (\<lambda>_. 1 / 2) (demo_props SCATTER))))) ! 0)
       = Vector3_lerp
           (obj_position
              (sceneChildren
                 (renderTreeScene (\<lambda>_. 1 / 2) (demo_props FOCUS)
                    (useFrame (demo_env pi) (1 / 60) (demo_props SCATTER)
                       (mountedScene (\<lambda>_. 1 / 2) (demo_props SCATTER)))) ! 0))
           \<lparr>vec_x = 0, vec_y = 1 / 20, vec_z = 0\<rparr> (binary64 (1 / 60 * 4))"
proof -
  define st0 where "st0 = mountedScene (\<lambda>_. 1 / 2) (demo_props SCATTER)"
  define st1 where "st1 = useFrame (demo_env pi) (1 / 60) (demo_props SCATTER) st0"
  define st2 where "st2 = renderTreeScene (\<lambda>_. 1 / 2) (demo_props FOCUS) st1"
  define data where "data = ornamentsMemo st2 ! 0"
  define child where "child = mountedChild (fst (ornaments (\<lambda>_. 1 / 2) 0 []) ! 0)"
  have "memoDeps st1 = Some 0"
    by (simp add: st1_def st0_def useFrame_memoDeps mountedScene_deps)
  moreover have "userImagesRef (demo_props FOCUS) = 0"
    by (simp add: demo_props_def)
  ultimately have memo: "memoDeps st1 = Some (userImagesRef (demo_props FOCUS))"
    by simp
  have orn2: "ornamentsMemo st2 = ornamentsMemo st1"
    and ch2: "sceneChildren st2 = sceneChildren st1"
    unfolding st2_def by (simp_all add: renderTreeScene_memoised [OF memo])
  have "list_all (\<lambda>orn. orn_type orn \<noteq> PHOTO) (ornamentsMemo st0)"
    by (simp add: st0_def mountedScene_demo ornaments_def generateOrnaments_no_photos_all)
  then have none: "list_all (\<lambda>orn. orn_type orn \<noteq> PHOTO) (ornamentsMemo st2)"
    unfolding orn2 st1_def by (rule useFrame_no_photos)
  have len: "0 < length (ornamentsMemo st2)"
    by (simp add: orn2 st1_def st0_def useFrame_ornaments_length mountedScene_demo
          ornaments_demo_length)
  have lc: "0 < length (sceneChildren st2)"
    by (simp add: ch2 st1_def st0_def sceneChildren_useFrame_length
          sceneChildren_mountedScene_demo ornaments_demo_length)
  have ps: "positionScatter data = \<lparr>vec_x = 0, vec_y = 1 / 20, vec_z = 0\<rparr>"
    unfolding data_def orn2 st1_def st0_def by (rule scatter_frame_demo)
  have fl: "floatOffset (demo_env pi) data = 1 / 20"
    by (simp add: floatOffset_demo ps)
  have m: "mode (demo_props FOCUS) = FOCUS"
    by (simp add: demo_props_def)
  note all = focus_without_photos [where st = st2 and i = 0 and fIndex = "Some 0"
      and env = "demo_env pi" and child = child and props = "demo_props FOCUS"
      and delta = "1 / 60", OF none len, folded data_def]
  from all have tf: "fst (targetOf FOCUS (Some 0) (demo_env pi) 0 data child)
      = \<lparr>vec_x = 0, vec_y = 1 / 20, vec_z = 0\<rparr>"
    by (simp add: ps)
  from all have ts: "fst (targetOf SCATTER (Some 0) (demo_env pi) 0 data child)
      = \<lparr>vec_x = 0, vec_y = 1 / 10, vec_z = 0\<rparr>"
    by (simp add: ps fl)
  from all m lc have fr: "obj_position (sceneChildren (useFrame (demo_env pi) (1 / 60) (demo_props FOCUS) st2) ! 0)
      = Vector3_lerp (obj_position (sceneChildren st2 ! 0))
          \<lparr>vec_x = 0, vec_y = 1 / 20, vec_z = 0\<rparr> (binary64 (1 / 60 * 4))"
    by (simp add: ps)
  from none len tf ts m lc fr show ?thesis
    unfolding data_def child_def st2_def st1_def st0_def
    by - (intro conjI, assumption+)
qed

section \<open>Properties of the focus selector\<close>

lemma enum_map:
  "map (\<lambda>(i, orn). if orn_type orn = PHOTO then int i else - 1) (enumerate 0 orns)
      = map (\<lambda>i. if orn_type (orns ! i) = PHOTO then int i else - 1) [0..<length orns]"
proof (rule nth_equalityI)
  show "length (map (\<lambda>(i, orn). if orn_type orn = PHOTO then int i else - 1) (enumerate 0 orns))
      = length (map (\<lambda>i. if orn_type (orns ! i) = PHOTO then int i else - 1) [0..<length orns])"
    by simp
next
  fix j
  assume "j < length (map (\<lambda>(i, orn). if orn_type orn = PHOTO then int i else - 1) (enumerate 0 orns))"
  then have j: "j < length orns" by simp
  then have "enumerate 0 orns ! j = (j, orns ! j)"
    by (simp add: nth_enumerate_eq)
  with j show "map (\<lambda>(i, orn). if orn_type orn = PHOTO then int i else - 1) (enumerate 0 orns) ! j
      = map (\<lambda>i. if orn_type (orns ! i) = PHOTO then int i else - 1) [0..<length orns] ! j"
    by simp
qed

lemma photoIndices_eq:
  "photoIndices orns = map int (filter (\<lambda>i. orn_type (orns ! i) = PHOTO) [0..<length orns])"
proof -
  have "photoIndices orns
      = map (\<lambda>i. if orn_type (orns ! i) = PHOTO then int i else - 1)
          (filter (\<lambda>i. orn_type (orns ! i) = PHOTO) [0..<length orns])"
    unfolding photoIndices_def enum_map by (simp add: filter_map comp_def)
  also have "\<dots> = map int (filter (\<lambda>i. orn_type (orns ! i) = PHOTO) [0..<length orns])"
    by (rule map_cong) simp_all
  finally show ?thesis .
qed

lemma photoIndices_member:
  assumes "j < length (photoIndices orns)"
  shows "\<exists>i. photoIndices orns ! j = int i \<and> i < length orns \<and> orn_type (orns ! i) = PHOTO"
proof -
  let ?is = "filter (\<lambda>i. orn_type (orns ! i) = PHOTO) [0..<length orns]"
  from assms have j: "j < length ?is" by (simp add: photoIndices_eq)
  then have "?is ! j \<in> set ?is" by (rule nth_mem)
  then have "?is ! j < length orns \<and> orn_type (orns ! (?is ! j)) = PHOTO" by simp
  moreover have "photoIndices orns ! j = int (?is ! j)"
    using j by (simp add: photoIndices_eq)
  ultimately show ?thesis by blast
qed

lemma photoIndices_generated:
  "photoIndices (fst (generateOrnaments n rnd k imgs)) = map int [0..<length imgs]"
proof -
  define items where "items = fst (generateOrnaments n rnd k imgs)"
  have len: "length items = length imgs + n"
    by (simp add: items_def generateOrnaments_length)
  have split: "[0..<length imgs + n] = [0..<length imgs] @ [length imgs..<length imgs + n]"
    by (rule upt_add_eq_append) simp
  have a: "filter (\<lambda>i. orn_type (items ! i) = PHOTO) [0..<length imgs] = [0..<length imgs]"
  proof (rule filter_True, rule ballI)
    fix i assume "i \<in> set [0..<length imgs]"
    then have "i < length imgs" by simp
    then show "orn_type (items ! i) = PHOTO"
      by (simp add: items_def generateOrnaments_photo)
  qed
  have b: "filter (\<lambda>i. orn_type (items ! i) = PHOTO) [length imgs..<length imgs + n] = []"
  proof (rule filter_False, rule ballI)
    fix i assume "i \<in> set [length imgs..<length imgs + n]"
    then have "length imgs \<le> i" "i < length imgs + n" by simp_all
    then obtain j where "i = length imgs + j" "j < n"
      by (metis le_iff_add nat_add_left_cancel_less)
    then show "\<not> orn_type (items ! i) = PHOTO"
      by (simp add: items_def generateOrnaments_gem)
  qed
  have "photoIndices items = map int (filter (\<lambda>i. orn_type (items ! i) = PHOTO) [0..<length imgs + n])"
    unfolding photoIndices_eq len ..
  also have "\<dots> = map int [0..<length imgs]"
    unfolding split filter_append a b by simp
  finally show ?thesis
    unfolding items_def .
qed

lemma floor_index:
  fixes r :: real
  assumes "0 \<le> r" "r < 1" "0 < len"
  shows "0 \<le> \<lfloor>r * real len\<rfloor>" and "nat \<lfloor>r * real len\<rfloor> < len"
proof -
  have nn: "0 \<le> r * real len" using assms by simp
  then show "0 \<le> \<lfloor>r * real len\<rfloor>" by simp
  have "r * real len < real len" using assms by simp
  then have "\<lfloor>r * real len\<rfloor> < int len" by (simp add: floor_less_iff)
  moreover have "0 \<le> \<lfloor>r * real len\<rfloor>" using nn by simp
  ultimately show "nat \<lfloor>r * real len\<rfloor> < len" by linarith
qed

lemma floor_index_interval:
  fixes r :: real
  assumes "0 \<le> r" "0 < len"
  shows "nat \<lfloor>r * real len\<rfloor> = j \<longleftrightarrow> real j / real len \<le> r \<and> r < (real j + 1) / real len"
proof -
  have nn: "0 \<le> \<lfloor>r * real len\<rfloor>" using assms by simp
  have "nat \<lfloor>r * real len\<rfloor> = j \<longleftrightarrow> \<lfloor>r * real len\<rfloor> = int j"
    using nn by auto
  also have "\<dots> \<longleftrightarrow> real j \<le> r * real len \<and> r * real len < real j + 1"
    by (simp add: floor_eq_iff)
  also have "\<dots> \<longleftrightarrow> real j / real len \<le> r \<and> r < (real j + 1) / real len"
    using assms by (simp add: field_simps)
  finally show ?thesis .
qed

lemma focusEffect_idle:
  assumes "mode props \<noteq> FOCUS \<or> userImages props = [] \<or> photoIndices (ornamentsMemo st) = []"
  shows "focusEffect rnd props st = st"
  using assms by (auto simp: focusEffect_def Let_def)

lemma focusEffect_select:
  assumes "mode props = FOCUS" "userImages props \<noteq> []" "photoIndices (ornamentsMemo st) \<noteq> []"
    and "0 \<le> rnd (randomCalls st)" "rnd (randomCalls st) < 1"
  shows "focusedIndex (focusEffect rnd props st) =
           Some (photoIndices (ornamentsMemo st)
                   ! nat \<lfloor>rnd (randomCalls st) * real (length (photoIndices (ornamentsMemo st)))\<rfloor>)"
proof -
  have len: "0 < length (photoIndices (ornamentsMemo st))" using assms(3) by simp
  from floor_index [OF assms(4,5) len] show ?thesis
    using assms(1,2) len by (simp add: focusEffect_def Let_def js_at_def)
qed

lemma useEffect_focus_same_deps:
  assumes "effectDeps st = Some (mode props, length (userImages props))"
  shows "useEffect_focus rnd props st = st"
  using assms by (simp add: useEffect_focus_def)

lemma useEffect_focus_new_deps:
  assumes "effectDeps st \<noteq> Some (mode props, length (userImages props))"
  shows "focusedIndex (useEffect_focus rnd props st) = focusedIndex (focusEffect rnd props st)"
  using assms by (simp add: useEffect_focus_def)

lemma useMemo_ornaments_keeps:
  "focusedIndex (useMemo_ornaments rnd props st) = focusedIndex st"
  "effectDeps (useMemo_ornaments rnd props st) = effectDeps st"
  by (simp_all add: useMemo_ornaments_def case_prod_beta)

lemma renderTreeScene_focusedIndex:
  "focusedIndex (renderTreeScene rnd props st) =
     (if effectDeps st = Some (mode props, length (userImages props)) then focusedIndex st
      else focusedIndex (focusEffect rnd props (useMemo_ornaments rnd props st)))"
  by (simp add: renderTreeScene_def useEffect_focus_def useMemo_ornaments_keeps
        commitTreeScene_keeps focusEffect_groupRef)


lemma useMemo_ornaments_fresh:
  assumes "memoDeps st \<noteq> Some (userImagesRef props)"
  shows "ornamentsMemo (useMemo_ornaments rnd props st)
           = fst (ornaments rnd (randomCalls st) (userImages props))"
    and "randomCalls (useMemo_ornaments rnd props st)
           = snd (ornaments rnd (randomCalls st) (userImages props))"
  using assms by (simp_all add: useMemo_ornaments_def case_prod_beta)

lemma photoIndices_upload:
  "photoIndices (fst (ornaments rnd k (userImages upload_props))) = [0, 1, 2]"
proof -
  have "[0..<3] = [0, Suc 0, Suc (Suc 0)]"
    by (simp add: upt_rec numeral_3_eq_3)
  then show ?thesis
    by (simp add: ornaments_def photoIndices_generated upload_props_def)
qed

text \<open>
  C4 as stated fails: the scene is in FOCUS mode with no photos (\<open>focusedIndex\<close> is
  0); three photos are uploaded and the next render, still in FOCUS mode, runs the
  effect again because \<open>userImages.length\<close> changed; with the draw 9/10 it sets
  \<open>focusedIndex\<close> to 2. FocusTarget changed while the mode stayed FOCUS.
\<close>

theorem focus_selection_counterexample:
  "mode (demo_props FOCUS) = FOCUS \<and> mode upload_props = FOCUS
   \<and> focusedIndex (mountedScene (\<lambda>_. 9 / 10) (demo_props FOCUS)) = Some 0
   \<and> focusedIndex
         (renderTreeScene (\<lambda>_. 9 / 10) upload_props
            (mountedScene (\<lambda>_. 9 / 10) (demo_props FOCUS))) = Some 2"
proof -
  let ?rnd = "\<lambda>_::nat. 9 / 10 :: real"
  let ?st0 = "mountedScene ?rnd (demo_props FOCUS)"
  let ?st1 = "useMemo_ornaments ?rnd upload_props ?st0"
  have memo: "memoDeps ?st0 \<noteq> Some (userImagesRef upload_props)"
    by (simp add: mountedScene_deps upload_props_def)
  have pis: "photoIndices (ornamentsMemo ?st1) = [0, 1, 2]"
    by (simp add: useMemo_ornaments_fresh [OF memo] photoIndices_upload)
  have m: "mode upload_props = FOCUS" and u: "userImages upload_props \<noteq> []"
    by (simp_all add: upload_props_def)
  have fl: "nat \<lfloor>(9 / 10 :: real) * 3\<rfloor> = 2"
    by (simp add: floor_eq_iff nat_eq_iff)
  have sel: "focusedIndex (focusEffect ?rnd upload_props ?st1) = Some 2"
    using focusEffect_select [of upload_props ?st1 ?rnd] m u
    by (simp add: pis fl)
  have deps: "effectDeps ?st0 \<noteq> Some (mode upload_props, length (userImages upload_props))"
    by (simp add: mountedScene_deps upload_props_def)
  have "focusedIndex (renderTreeScene ?rnd upload_props ?st0) = Some 2"
    using deps by (simp add: renderTreeScene_focusedIndex sel)
  moreover have "mode (demo_props FOCUS) = FOCUS"
    by (simp add: demo_props_def)
  moreover have "focusedIndex ?st0 = Some 0"
    by (rule mountedScene_demo)
  ultimately show ?thesis
    using m by simp
qed

lemma renderTreeScene_effectDeps:
  "effectDeps (renderTreeScene rnd props st) = Some (effectDepsOf props)"
  by (simp add: renderTreeScene_def useEffect_focus_def effectDepsOf_def Let_def)

lemma useFrame_effectDeps: "effectDeps (useFrame env delta props st) = effectDeps st"
  by (simp add: useFrame_def Let_def case_prod_beta split: option.split)

lemma sceneRun_Cons:
  "sceneRun rnd (ev # events) s = sceneRun rnd events (sceneStep rnd s ev)"
  by (simp add: sceneRun_def)

lemma sceneRun_stable:
  assumes "effectDeps st = Some d" "list_all (\<lambda>q. effectDepsOf q = d) (rendersOf events)"
  shows "focusedIndex (snd (sceneRun rnd events (props, st))) = focusedIndex st
       \<and> effectDeps (snd (sceneRun rnd events (props, st))) = Some d"
  using assms
proof (induction events arbitrary: props st)
  case Nil
  then show ?case by (simp add: sceneRun_def)
next
  case (Cons ev events)
  show ?case
  proof (cases ev)
    case (Frame env delta)
    have "effectDeps (useFrame env delta props st) = Some d"
      using Cons.prems(1) by (simp add: useFrame_effectDeps)
    moreover have "list_all (\<lambda>q. effectDepsOf q = d) (rendersOf events)"
      using Cons.prems(2) Frame by simp
    ultimately show ?thesis
      using Cons.IH [of "useFrame env delta props st" props]
      by (simp add: sceneRun_Cons Frame useFrame_focusedIndex)
  next
    case (Render q)
    from Cons.prems(2) Render have q: "effectDepsOf q = d"
      and rest: "list_all (\<lambda>q. effectDepsOf q = d) (rendersOf events)"
      by simp_all
    have deps: "effectDeps (renderTreeScene rnd q st) = Some d"
      by (simp add: renderTreeScene_effectDeps q)
    have "focusedIndex (renderTreeScene rnd q st) = focusedIndex st"
      using Cons.prems(1) q by (simp add: renderTreeScene_focusedIndex effectDepsOf_def)
    then show ?thesis
      using Cons.IH [OF deps rest, of q] by (simp add: sceneRun_Cons Render)
  qed
qed

lemma focusEffect_randomCalls:
  assumes "mode props = FOCUS" "userImages props \<noteq> []" "photoIndices (ornamentsMemo st) \<noteq> []"
  shows "randomCalls (focusEffect rnd props st) = randomCalls st + 1"
  using assms by (simp add: focusEffect_def Let_def)

text \<open>
  C4, amended: the focus selection runs after a render whose \<open>mode\<close> or photo count
  differs from the previous render's (so on every transition into FOCUS mode, and also
  when the photo count changes while in FOCUS mode), on the ornaments of that render;
  every render records its \<open>mode\<close> and photo count for the comparison at the next.
  The selection changes the state only when the mode is FOCUS and at least one photo
  particle exists, and then sets \<open>focusedIndex\<close> to the index of a PHOTO particle: for
  a draw \<open>r\<close> between 0 and 1 (1 excluded) it takes the photo index at position
  \<open>\<lfloor>r * P\<rfloor>\<close> of the \<open>P\<close> photo indices, so position \<open>j\<close> is chosen exactly for the
  draws from \<open>j / P\<close> up to \<open>(j + 1) / P\<close>, intervals of equal length (uniform), and
  the choice depends on a fresh draw only, not on the previous \<open>focusedIndex\<close>
  (re-entering re-randomizes). Over any sequence of frames and re-renders in which
  every render has the \<open>mode\<close> and the photo count of the last render before it,
  \<open>focusedIndex\<close> stays as it is; the render after such a sequence runs the selection
  exactly when its \<open>mode\<close> or photo count differs. For generated ornaments the photo
  indices are 0 to \<open>P - 1\<close>.
\<close>

theorem focus_selection:
  assumes "0 \<le> rnd (randomCalls st)" "rnd (randomCalls st) < 1"
  shows "focusedIndex (useFrame env delta props st) = focusedIndex st
   \<and> focusedIndex (renderTreeScene rnd props st) =
       (if effectDeps st = Some (mode props, length (userImages props)) then focusedIndex st
        else focusedIndex (focusEffect rnd props (useMemo_ornaments rnd props st)))
   \<and> (mode props \<noteq> FOCUS \<or> userImages props = [] \<or> photoIndices (ornamentsMemo st) = []
        \<longrightarrow> focusEffect rnd props st = st)
   \<and> (mode props = FOCUS \<and> userImages props \<noteq> [] \<and> photoIndices (ornamentsMemo st) \<noteq> []
        \<longrightarrow> (\<exists>j i. j = nat \<lfloor>rnd (randomCalls st) * real (length (photoIndices (ornamentsMemo st)))\<rfloor>
                 \<and> j < length (photoIndices (ornamentsMemo st))
                 \<and> photoIndices (ornamentsMemo st) ! j = int i
                 \<and> focusedIndex (focusEffect rnd props st) = Some (int i)
                 \<and> randomCalls (focusEffect rnd props st) = randomCalls st + 1
                 \<and> i < length (ornamentsMemo st)
                 \<and> orn_type (ornamentsMemo st ! i) = PHOTO))
   \<and> (\<forall>j. photoIndices (ornamentsMemo st) \<noteq> [] \<longrightarrow>
          (nat \<lfloor>rnd (randomCalls st) * real (length (photoIndices (ornamentsMemo st)))\<rfloor> = j
             \<longleftrightarrow> real j / real (length (photoIndices (ornamentsMemo st))) \<le> rnd (randomCalls st)
                \<and> rnd (randomCalls st) < (real j + 1) / real (length (photoIndices (ornamentsMemo st)))))
   \<and> photoIndices (fst (ornaments rnd0 k0 imgs)) = map int [0..<length imgs]
   \<and> effectDeps (renderTreeScene rnd props st) = Some (effectDepsOf props)
   \<and> effectDeps (useFrame env delta props st) = effectDeps st
   \<and> (effectDeps st = Some d \<and> list_all (\<lambda>q. effectDepsOf q = d) (rendersOf events) \<longrightarrow>
        focusedIndex (snd (sceneRun rnd events (props, st))) = focusedIndex st)
   \<and> (list_all (\<lambda>q. effectDepsOf q = effectDepsOf props) (rendersOf events) \<longrightarrow>
        focusedIndex (snd (sceneRun rnd events (props, renderTreeScene rnd props st)))
          = focusedIndex (renderTreeScene rnd props st)
        \<and> focusedIndex
            (renderTreeScene rnd props'
               (snd (sceneRun rnd events (props, renderTreeScene rnd props st))))
          = (if effectDepsOf props' = effectDepsOf props
             then focusedIndex (renderTreeScene rnd props st)
             else focusedIndex
                    (focusEffect rnd props'
                       (useMemo_ornaments rnd props'
                          (snd (sceneRun rnd events (props, renderTreeScene rnd props st)))))))"
proof (intro conjI allI impI)
  show "focusedIndex (useFrame env delta props st) = focusedIndex st"
    by (rule useFrame_focusedIndex)
next
  show "focusedIndex (renderTreeScene rnd props st) =
       (if effectDeps st = Some (mode props, length (userImages props)) then focusedIndex st
        else focusedIndex (focusEffect rnd props (useMemo_ornaments rnd props st)))"
    by (rule renderTreeScene_focusedIndex)
next
  assume "mode props \<noteq> FOCUS \<or> userImages props = [] \<or> photoIndices (ornamentsMemo st) = []"
  then show "focusEffect rnd props st = st"
    by (rule focusEffect_idle)
next
  assume a: "mode props = FOCUS \<and> userImages props \<noteq> [] \<and> photoIndices (ornamentsMemo st) \<noteq> []"
  define len where "len = length (photoIndices (ornamentsMemo st))"
  define j where "j = nat \<lfloor>rnd (randomCalls st) * real len\<rfloor>"
  from a have len: "0 < len" by (simp add: len_def)
  have j: "j < len"
    unfolding j_def using assms len by (rule floor_index)
  then obtain i where i: "photoIndices (ornamentsMemo st) ! j = int i"
      "i < length (ornamentsMemo st)" "orn_type (ornamentsMemo st ! i) = PHOTO"
    using photoIndices_member [of j "ornamentsMemo st"] by (auto simp: len_def)
  have "focusedIndex (focusEffect rnd props st) = Some (photoIndices (ornamentsMemo st) ! j)"
    unfolding j_def len_def using a assms by (simp add: focusEffect_select)
  moreover have "randomCalls (focusEffect rnd props st) = randomCalls st + 1"
    using a by (simp add: focusEffect_randomCalls)
  ultimately show "\<exists>j i. j = nat \<lfloor>rnd (randomCalls st) * real (length (photoIndices (ornamentsMemo st)))\<rfloor>
                 \<and> j < length (photoIndices (ornamentsMemo st))
                 \<and> photoIndices (ornamentsMemo st) ! j = int i
                 \<and> focusedIndex (focusEffect rnd props st) = Some (int i)
                 \<and> randomCalls (focusEffect rnd props st) = randomCalls st + 1
                 \<and> i < length (ornamentsMemo st)
                 \<and> orn_type (ornamentsMemo st ! i) = PHOTO"
    using i j unfolding j_def len_def by auto
next
  fix j
  assume "photoIndices (ornamentsMemo st) \<noteq> []"
  then have "0 < length (photoIndices (ornamentsMemo st))" by simp
  with assms(1) show "nat \<lfloor>rnd (randomCalls st) * real (length (photoIndices (ornamentsMemo st)))\<rfloor> = j
             \<longleftrightarrow> real j / real (length (photoIndices (ornamentsMemo st))) \<le> rnd (randomCalls st)
                \<and> rnd (randomCalls st) < (real j + 1) / real (length (photoIndices (ornamentsMemo st)))"
    by (rule floor_index_interval)
next
  show "photoIndices (fst (ornaments rnd0 k0 imgs)) = map int [0..<length imgs]"
    by (simp add: ornaments_def photoIndices_generated)
next
  show "effectDeps (renderTreeScene rnd props st) = Some (effectDepsOf props)"
    by (rule renderTreeScene_effectDeps)
next
  show "effectDeps (useFrame env delta props st) = effectDeps st"
    by (rule useFrame_effectDeps)
next
  assume "effectDeps st = Some d \<and> list_all (\<lambda>q. effectDepsOf q = d) (rendersOf events)"
  then show "focusedIndex (snd (sceneRun rnd events (props, st))) = focusedIndex st"
    using sceneRun_stable [of st d events rnd props] by simp
next
  assume a: "list_all (\<lambda>q. effectDepsOf q = effectDepsOf props) (rendersOf events)"
  define st' where "st' = snd (sceneRun rnd events (props, renderTreeScene rnd props st))"
  have run: "focusedIndex st' = focusedIndex (renderTreeScene rnd props st)
      \<and> effectDeps st' = Some (effectDepsOf props)"
    unfolding st'_def using renderTreeScene_effectDeps a by (rule sceneRun_stable)
  then show "focusedIndex (snd (sceneRun rnd events (props, renderTreeScene rnd props st)))
      = focusedIndex (renderTreeScene rnd props st)"
    by (simp add: st'_def)
  have "focusedIndex (renderTreeScene rnd props' st')
      = (if effectDepsOf props' = effectDepsOf props
         then focusedIndex (renderTreeScene rnd props st)
         else focusedIndex (focusEffect rnd props' (useMemo_ornaments rnd props' st')))"
    using run by (auto simp: renderTreeScene_focusedIndex effectDepsOf_def)
  then show "focusedIndex
            (renderTreeScene rnd props'
               (snd (sceneRun rnd events (props, renderTreeScene rnd props st))))
          = (if effectDepsOf props' = effectDepsOf props
             then focusedIndex (renderTreeScene rnd props st)
             else focusedIndex
                    (focusEffect rnd props'
                       (useMemo_ornaments rnd props'
                          (snd (sceneRun rnd events (props, renderTreeScene rnd props st))))))"
    by (simp add: st'_def)
qed

theorem focus_selection_witness:
  "(0::real) \<le> 1 / 2 \<and> (1 / 2 :: real) < 1
   \<and> mode upload_props = FOCUS \<and> userImages upload_props \<noteq> []
   \<and> photoIndices (ornamentsMemo (useMemo_ornaments (\<lambda>_. 1 / 2) upload_props (TreeScene_initial 0)))
        = [0, 1, 2]
   \<and> focusedIndex
        (focusEffect (\<lambda>_. 1 / 2) upload_props
           (useMemo_ornaments (\<lambda>_. 1 / 2) upload_props (TreeScene_initial 0))) = Some 1
   \<and> orn_type (ornamentsMemo (useMemo_ornaments (\<lambda>_. 1 / 2) upload_props (TreeScene_initial 0)) ! 1)
        = PHOTO
   \<and> real 1 / real 3 \<le> (1 / 2 :: real) \<and> (1 / 2 :: real) < (real 1 + 1) / real 3
   \<and> focusedIndex (renderTreeScene (\<lambda>_. 1 / 2) upload_props (TreeScene_initial 0)) = Some 1
   \<and> effectDeps (renderTreeScene (\<lambda>_. 1 / 2) upload_props (TreeScene_initial 0)) = Some (FOCUS, 3)
   \<and> list_all (\<lambda>q. effectDepsOf q = effectDepsOf upload_props)
        (rendersOf [Frame (demo_env 0) (1 / 60), Render upload_props, Frame (demo_env 1) (1 / 60)])
   \<and> focusedIndex
        (snd (sceneRun (\<lambda>_. 1 / 2)
                [Frame (demo_env 0) (1 / 60), Render upload_props, Frame (demo_env 1) (1 / 60)]
                (upload_props, renderTreeScene (\<lambda>_. 1 / 2) upload_props (TreeScene_initial 0))))
       = Some 1
   \<and> effectDepsOf (demo_props TREE) \<noteq> effectDepsOf upload_props
   \<and> focusedIndex
        (renderTreeScene (\<lambda>_. 1 / 2) (demo_props TREE)
           (snd (sceneRun (\<lambda>_. 1 / 2)
                   [Frame (demo_env 0) (1 / 60), Render upload_props, Frame (demo_env 1) (1 / 60)]
                   (upload_props, renderTreeScene (\<lambda>_. 1 / 2) upload_props (TreeScene_initial 0)))))
       = focusedIndex
           (focusEffect (\<lambda>_. 1 / 2) (demo_props TREE)
              (useMemo_ornaments (\<lambda>_. 1 / 2) (demo_props TREE)
                 (snd (sceneRun (\<lambda>_. 1 / 2)
                         [Frame (demo_env 0) (1 / 60), Render upload_props, Frame (demo_env 1) (1 / 60)]
                         (upload_props,
                          renderTreeScene (\<lambda>_. 1 / 2) upload_props (TreeScene_initial 0))))))"
proof -
  let ?rnd = "\<lambda>_::nat. 1 / 2 :: real"
  let ?events = "[Frame (demo_env 0) (1 / 60), Render upload_props, Frame (demo_env 1) (1 / 60)]"
  define sW where "sW = useMemo_ornaments ?rnd upload_props (TreeScene_initial 0)"
  define s0 where "s0 = TreeScene_initial 0"
  have memo: "memoDeps (TreeScene_initial 0) \<noteq> Some (userImagesRef upload_props)"
    by (simp add: TreeScene_initial_def)
  have pis: "photoIndices (ornamentsMemo sW) = [0, 1, 2]"
    unfolding sW_def by (simp add: useMemo_ornaments_fresh [OF memo] photoIndices_upload)
  have m: "mode upload_props = FOCUS" and u: "userImages upload_props \<noteq> []"
    by (simp_all add: upload_props_def)
  have fl: "nat \<lfloor>(1 / 2 :: real) * 3\<rfloor> = 1"
    by (simp add: floor_eq_iff nat_eq_iff)
  have r: "0 \<le> ?rnd (randomCalls sW)" "?rnd (randomCalls sW) < 1"
    by simp_all
  have r0: "0 \<le> ?rnd (randomCalls s0)" "?rnd (randomCalls s0) < 1"
    by simp_all
  note all = focus_selection [where rnd = ?rnd and st = sW and props = upload_props, OF r]
  from all m u pis obtain j i where
      "j = nat \<lfloor>?rnd (randomCalls sW) * real (length (photoIndices (ornamentsMemo sW)))\<rfloor>"
      "photoIndices (ornamentsMemo sW) ! j = int i"
      "focusedIndex (focusEffect ?rnd upload_props sW) = Some (int i)"
      "orn_type (ornamentsMemo sW ! i) = PHOTO"
    by auto
  then have "j = 1" "int i = 1" by (simp_all add: pis fl)
  with \<open>focusedIndex (focusEffect ?rnd upload_props sW) = Some (int i)\<close>
       \<open>orn_type (ornamentsMemo sW ! i) = PHOTO\<close>
  have sel: "focusedIndex (focusEffect ?rnd upload_props sW) = Some 1"
    and ph: "orn_type (ornamentsMemo sW ! 1) = PHOTO"
    by simp_all
  note trace = focus_selection [where rnd = ?rnd and st = s0 and props = upload_props
      and events = ?events and props' = "demo_props TREE", OF r0]
  have first: "focusedIndex (renderTreeScene ?rnd upload_props s0) = Some 1"
    using trace [THEN conjunct2, THEN conjunct1] sel
    by (simp add: s0_def sW_def TreeScene_initial_def)
  have deps: "effectDeps (renderTreeScene ?rnd upload_props s0) = Some (FOCUS, 3)"
    using trace by (simp add: effectDepsOf_def upload_props_def)
  have same: "list_all (\<lambda>q. effectDepsOf q = effectDepsOf upload_props) (rendersOf ?events)"
    by simp
  have diff: "effectDepsOf (demo_props TREE) \<noteq> effectDepsOf upload_props"
    by (simp add: effectDepsOf_def demo_props_def upload_props_def)
  note tail = trace [THEN conjunct2, THEN conjunct2, THEN conjunct2, THEN conjunct2, THEN conjunct2,
      THEN conjunct2, THEN conjunct2, THEN conjunct2, THEN conjunct2, rule_format, OF same]
  from tail first have stay:
      "focusedIndex (snd (sceneRun ?rnd ?events (upload_props, renderTreeScene ?rnd upload_props s0)))
        = Some 1"
    by simp
  from tail diff have leave:
      "focusedIndex
        (renderTreeScene ?rnd (demo_props TREE)
           (snd (sceneRun ?rnd ?events (upload_props, renderTreeScene ?rnd upload_props s0))))
       = focusedIndex
           (focusEffect ?rnd (demo_props TREE)
              (useMemo_ornaments ?rnd (demo_props TREE)
                 (snd (sceneRun ?rnd ?events
                         (upload_props, renderTreeScene ?rnd upload_props s0)))))"
    by simp
  have q: "(0::real) \<le> 1 / 2" "(1 / 2 :: real) < 1" "real 1 / real 3 \<le> (1 / 2 :: real)"
      "(1 / 2 :: real) < (real 1 + 1) / real 3"
    by simp_all
  from q m u pis sel ph first deps same stay diff leave show ?thesis
    unfolding sW_def s0_def by - (intro conjI, assumption+)
qed

end
